theory Spec2Isabelle
  imports Complex_Main
begin

section \<open>Python strings\<close>

text \<open>
  A Python \<open>str\<close> is a sequence of Unicode code points, and the sources compare against
  code points beyond Latin-1 (the sign \<open>\<le>\<close>, the Japanese full stop, Japanese section
  names), so a string is a list of code points and \<open>len\<close> is \<open>length\<close>.
  ASCII literals of the source are written \<open>lit ''...''\<close>.
\<close>

type_synonym ustr = "nat list"

definition lit :: "string \<Rightarrow> ustr" where
  "lit s = map of_char s"

text \<open>\<open>str.isspace\<close> for one code point: the complete table of CPython.\<close>

definition isspace :: "nat \<Rightarrow> bool" where
  "isspace c \<longleftrightarrow>
     (9 \<le> c \<and> c \<le> 13) \<or> (28 \<le> c \<and> c \<le> 32) \<or> c = 133 \<or> c = 160 \<or> c = 5760
     \<or> (8192 \<le> c \<and> c \<le> 8202) \<or> c = 8232 \<or> c = 8233 \<or> c = 8239 \<or> c = 8287
     \<or> c = 12288"

text \<open>\<open>s.strip()\<close>: whitespace removed at both ends.\<close>

definition lstrip :: "ustr \<Rightarrow> ustr" where
  "lstrip s = dropWhile isspace s"

definition rstrip :: "ustr \<Rightarrow> ustr" where
  "rstrip s = rev (dropWhile isspace (rev s))"

definition strip :: "ustr \<Rightarrow> ustr" where
  "strip s = rstrip (lstrip s)"

text \<open>\<open>s.startswith(p)\<close>, and \<open>p in s\<close> for strings.\<close>

fun startswith :: "ustr \<Rightarrow> ustr \<Rightarrow> bool" where
  "startswith s [] = True"
| "startswith [] (p # ps) = False"
| "startswith (c # cs) (p # ps) = (c = p \<and> startswith cs ps)"

fun str_in :: "ustr \<Rightarrow> ustr \<Rightarrow> bool" where
  "str_in p [] = (p = [])"
| "str_in p (c # cs) = (startswith (c # cs) p \<or> str_in p cs)"

text \<open>\<open>sep.join(xs)\<close>.\<close>

fun join :: "ustr \<Rightarrow> ustr list \<Rightarrow> ustr" where
  "join sep [] = []"
| "join sep [x] = x"
| "join sep (x # y # ys) = x @ sep @ join sep (y # ys)"

text \<open>
  \<open>s.split(sep)\<close> for a non-empty separator, scanning left to right without overlaps;
  \<open>cur\<close> is the piece being collected. (Python raises on an empty separator; the
  sources only split on literals.)
\<close>

function split_from :: "ustr \<Rightarrow> ustr \<Rightarrow> ustr \<Rightarrow> ustr list" where
  "split_from sep cur [] = [cur]"
| "split_from sep cur (c # cs) =
     (if sep \<noteq> [] \<and> startswith (c # cs) sep
      then cur # split_from sep [] (drop (length sep) (c # cs))
      else split_from sep (cur @ [c]) cs)"
  by pat_completeness auto
termination
  by (relation "measure (\<lambda>(sep, cur, s). length s)") auto

definition split :: "ustr \<Rightarrow> ustr \<Rightarrow> ustr list" where
  "split s sep = split_from sep [] s"

text \<open>\<open>s.replace(old, new)\<close> for a non-empty \<open>old\<close>: every non-overlapping occurrence,
  left to right.\<close>

function replace :: "ustr \<Rightarrow> ustr \<Rightarrow> ustr \<Rightarrow> ustr" where
  "replace [] old new = []"
| "replace (c # cs) old new =
     (if old \<noteq> [] \<and> startswith (c # cs) old
      then new @ replace (drop (length old) (c # cs)) old new
      else c # replace cs old new)"
  by pat_completeness auto
termination
  by (relation "measure (\<lambda>(s, old, new). length s)") auto

text \<open>
  \<open>s.splitlines()\<close>: the line boundaries of \<open>str.splitlines\<close> (\<open>\r\n\<close> counts once),
  no empty last line.
\<close>

definition islinebreak :: "nat \<Rightarrow> bool" where
  "islinebreak c \<longleftrightarrow> (10 \<le> c \<and> c \<le> 13) \<or> (28 \<le> c \<and> c \<le> 30) \<or> c = 133
     \<or> c = 8232 \<or> c = 8233"

fun splitlines_from :: "ustr \<Rightarrow> ustr \<Rightarrow> ustr list" where
  "splitlines_from cur [] = (if cur = [] then [] else [cur])"
| "splitlines_from cur [c] = (if islinebreak c then [cur] else [cur @ [c]])"
| "splitlines_from cur (c # d # cs) =
     (if c = 13 \<and> d = 10 then cur # splitlines_from [] cs
      else if islinebreak c then cur # splitlines_from [] (d # cs)
      else splitlines_from (cur @ [c]) (d # cs))"

definition splitlines :: "ustr \<Rightarrow> ustr list" where
  "splitlines s = splitlines_from [] s"

section \<open>Unicode tables\<close>

text \<open>
  What the sources ask of the Unicode database, as a parameter: \<open>str.lower\<close>,
  \<open>str.isdigit\<close> for one code point, the value of a decimal digit (\<open>int\<close> and the
  class \<open>\d\<close> accept exactly the decimal digits) and \<open>str.isalnum\<close> (the class \<open>\w\<close>
  is this and the underscore). Every theorem holds for all tables; \<open>latin1\<close> is the
  instance that agrees with CPython on code points below 256.
\<close>

record unicode =
  uc_lower :: "ustr \<Rightarrow> ustr"
  uc_isdigit :: "nat \<Rightarrow> bool"
  uc_decimal :: "nat \<Rightarrow> nat option"
  uc_isalnum :: "nat \<Rightarrow> bool"

definition latin1_lower :: "nat \<Rightarrow> nat" where
  "latin1_lower c =
     (if (65 \<le> c \<and> c \<le> 90) \<or> (192 \<le> c \<and> c \<le> 222 \<and> c \<noteq> 215) then c + 32 else c)"

definition latin1 :: unicode where
  "latin1 =
     \<lparr>uc_lower = map latin1_lower,
      uc_isdigit = (\<lambda>c. (48 \<le> c \<and> c \<le> 57) \<or> c = 178 \<or> c = 179 \<or> c = 185),
      uc_decimal = (\<lambda>c. if 48 \<le> c \<and> c \<le> 57 then Some (c - 48) else None),
      uc_isalnum = (\<lambda>c. (48 \<le> c \<and> c \<le> 57) \<or> (65 \<le> c \<and> c \<le> 90) \<or> (97 \<le> c \<and> c \<le> 122)
         \<or> c = 170 \<or> c = 178 \<or> c = 179 \<or> c = 181 \<or> c = 185 \<or> c = 186
         \<or> (188 \<le> c \<and> c \<le> 190) \<or> (192 \<le> c \<and> c \<le> 214) \<or> (216 \<le> c \<and> c \<le> 246)
         \<or> (248 \<le> c \<and> c \<le> 255))\<rparr>"

section \<open>Dictionaries\<close>

text \<open>
  A Python \<open>dict\<close> keeps insertion order, and the earlier pipeline iterates over the keys,
  so a section map is an association list: \<open>d[k] = v\<close> overwrites in place or appends.
\<close>

type_synonym sections = "(ustr \<times> ustr) list"

fun dict_set :: "sections \<Rightarrow> ustr \<Rightarrow> ustr \<Rightarrow> sections" where
  "dict_set [] k v = [(k, v)]"
| "dict_set ((k', v') # d) k v = (if k' = k then (k, v) # d else (k', v') # dict_set d k v)"

text \<open>\<open>d.get(k, default)\<close>.\<close>

definition dict_get :: "sections \<Rightarrow> ustr \<Rightarrow> ustr \<Rightarrow> ustr" where
  "dict_get d k dflt = (case map_of d k of None \<Rightarrow> dflt | Some v \<Rightarrow> v)"

section \<open>Example extraction\<close>

record sample_case =
  sc_input :: ustr
  sc_output :: ustr
  sc_explanation :: ustr

record examples =
  sampleCases :: "sample_case list"
  testCases :: "sample_case list"

text \<open>\<open>extract_examples_improved\<close> (improved pipeline).\<close>

definition extract_examples_improved :: "sections \<Rightarrow> examples" where
  "extract_examples_improved sections =
     (let input_text = dict_get sections (lit ''sample input'') (dict_get sections (lit ''input'') []);
          output_text = dict_get sections (lit ''sample output'') (dict_get sections (lit ''output'') [])
      in if input_text \<noteq> [] \<and> output_text \<noteq> []
         then \<lparr>sampleCases = [\<lparr>sc_input = strip input_text, sc_output = strip output_text,
                                sc_explanation = []\<rparr>], testCases = []\<rparr>
         else \<lparr>sampleCases = [], testCases = []\<rparr>)"

text \<open>
  \<open>extract_examples_from_sections\<close> (earlier pipeline): every key containing
  \<open>sample input\<close> is paired with the key at the same index among those containing
  \<open>output for\<close> or \<open>sample output\<close>.
\<close>

definition sample_input_keys :: "unicode \<Rightarrow> sections \<Rightarrow> ustr list" where
  "sample_input_keys U sections =
     filter (\<lambda>k. str_in (lit ''sample input'') (uc_lower U k)) (map fst sections)"

definition sample_output_keys :: "unicode \<Rightarrow> sections \<Rightarrow> ustr list" where
  "sample_output_keys U sections =
     filter (\<lambda>k. str_in (lit ''output for'') (uc_lower U k)
                 \<or> str_in (lit ''sample output'') (uc_lower U k)) (map fst sections)"

definition extract_examples_from_sections :: "unicode \<Rightarrow> sections \<Rightarrow> examples" where
  "extract_examples_from_sections U sections =
     \<lparr>sampleCases = concat (map (\<lambda>(i, input_key).
        let input_text = strip (dict_get sections input_key []);
            output_text = (if i < length (sample_output_keys U sections)
                           then strip (dict_get sections (sample_output_keys U sections ! i) [])
                           else [])
        in if input_text \<noteq> [] \<or> output_text \<noteq> []
           then [\<lparr>sc_input = input_text, sc_output = output_text, sc_explanation = []\<rparr>]
           else []) (enumerate 0 (sample_input_keys U sections))),
      testCases = []\<rparr>"

section \<open>Exceptions\<close>

text \<open>
  An exception is a value carrying its message (\<open>str(e)\<close>); a computation that may raise
  returns \<open>exn + 'a\<close>, with \<open>Inl\<close> for the exception.
\<close>

datatype exn = OSError ustr | ValueError ustr | UnicodeEncodeError ustr | LibraryError ustr

fun exn_str :: "exn \<Rightarrow> ustr" where
  "exn_str (OSError m) = m"
| "exn_str (ValueError m) = m"
| "exn_str (UnicodeEncodeError m) = m"
| "exn_str (LibraryError m) = m"

text \<open>\<open>s.isdigit()\<close>, and \<open>int(s)\<close> for a string of digits: \<open>int\<close> raises \<open>ValueError\<close>
  on a digit that is not a decimal digit (a superscript two, say).\<close>

definition str_isdigit :: "unicode \<Rightarrow> ustr \<Rightarrow> bool" where
  "str_isdigit U s \<longleftrightarrow> s \<noteq> [] \<and> list_all (uc_isdigit U) s"

definition py_int :: "unicode \<Rightarrow> ustr \<Rightarrow> exn + nat" where
  "py_int U s =
     (if s \<noteq> [] \<and> list_all (\<lambda>c. uc_decimal U c \<noteq> None) s
      then Inr (foldl (\<lambda>n c. 10 * n + (case uc_decimal U c of Some d \<Rightarrow> d | None \<Rightarrow> 0)) 0 s)
      else Inl (ValueError (lit ''invalid literal for int() with base 10: '' @ [39] @ s @ [39])))"

section \<open>Difficulty\<close>

text \<open>\<open>sum(1 for kw in keywords if kw in content)\<close>.\<close>

definition keyword_score :: "ustr list \<Rightarrow> ustr \<Rightarrow> nat" where
  "keyword_score keywords content = length (filter (\<lambda>kw. str_in kw content) keywords)"

text \<open>\<open>int(problem_id[1:]) if problem_id[1:].isdigit() else 0\<close>.\<close>

definition problem_num :: "unicode \<Rightarrow> ustr \<Rightarrow> exn + nat" where
  "problem_num U problem_id =
     (if str_isdigit U (drop 1 problem_id) then py_int U (drop 1 problem_id) else Inr 0)"

text \<open>\<open>assess_difficulty_improved\<close> (improved pipeline).\<close>

definition easy_keywords :: "ustr list" where
  "easy_keywords = [lit ''sum'', lit ''count'', lit ''simple'', lit ''basic'', lit ''digit'',
     lit ''print'', lit ''calculate'', lit ''find'']"

definition medium_keywords :: "ustr list" where
  "medium_keywords = [lit ''algorithm'', lit ''sort'', lit ''search'', lit ''tree'', lit ''graph'',
     lit ''dynamic'', lit ''optimal'', lit ''sequence'']"

definition hard_keywords :: "ustr list" where
  "hard_keywords = [lit ''complex'', lit ''advanced'', lit ''polynomial'', lit ''exponential'',
     lit ''combinatorial'', lit ''optimization'']"

definition assess_difficulty_improved :: "unicode \<Rightarrow> sections \<Rightarrow> ustr \<Rightarrow> exn + ustr" where
  "assess_difficulty_improved U sections problem_id =
     (let content = uc_lower U (join (lit '' '')
            [dict_get sections (lit ''title'') [], dict_get sections (lit ''description'') [],
             dict_get sections (lit ''constraints'') []])
      in case problem_num U problem_id of
           Inl e \<Rightarrow> Inl e
         | Inr num \<Rightarrow>
            (let easy_score = keyword_score easy_keywords content;
                 medium_score = keyword_score medium_keywords content;
                 hard_score = keyword_score hard_keywords content;
                 constraints_text = dict_get sections (lit ''constraints'') [];
                 (hard_score, medium_score) =
                   (if str_in (lit ''10^9'') constraints_text \<or> str_in (lit ''10^8'') constraints_text
                    then (hard_score + 2, medium_score)
                    else if str_in (lit ''10^6'') constraints_text
                            \<or> str_in (lit ''10^5'') constraints_text
                    then (hard_score, medium_score + 1)
                    else (hard_score, medium_score))
             in Inr (if hard_score > 0 \<or> num > 3500 then lit ''Hard''
                     else if medium_score > easy_score \<or> num > 2000 then lit ''Medium''
                     else lit ''Easy'')))"

text \<open>\<open>assess_difficulty\<close> (earlier pipeline).\<close>

definition easy_indicators :: "ustr list" where
  "easy_indicators = [lit ''sum'', lit ''count'', lit ''simple'', lit ''basic'', lit ''digit'',
     lit ''triangle'', lit ''maximum'', lit ''minimum'']"

definition medium_indicators :: "ustr list" where
  "medium_indicators = [lit ''algorithm'', lit ''sort'', lit ''search'', lit ''tree'',
     lit ''graph'', lit ''dynamic'', lit ''optimization'']"

definition hard_indicators :: "ustr list" where
  "hard_indicators = [lit ''complex'', lit ''advanced'', lit ''polynomial'', lit ''np-hard'',
     lit ''exponential'', lit ''combinatorial'']"

definition assess_difficulty :: "unicode \<Rightarrow> sections \<Rightarrow> ustr \<Rightarrow> exn + ustr" where
  "assess_difficulty U sections problem_id =
     (let description = dict_get sections (lit ''description'') [] @ lit '' ''
                          @ dict_get sections (lit ''title'') [];
          description_lower = uc_lower U description;
          easy_score = keyword_score easy_indicators description_lower;
          medium_score = keyword_score medium_indicators description_lower;
          hard_score = keyword_score hard_indicators description_lower
      in case problem_num U problem_id of
           Inl e \<Rightarrow> Inl e
         | Inr num \<Rightarrow>
             Inr (if hard_score > 0 \<or> num > 3000 then lit ''Hard''
                  else if medium_score > easy_score \<or> num > 1000 then lit ''Medium''
                  else lit ''Easy''))"

text \<open>
  The rule as the specification words it, for comparison with the two classifiers: the
  magnitude checks add to the hard and to the medium score independently of each other.
\<close>

definition spec_difficulty_rule :: "nat \<Rightarrow> nat \<Rightarrow> nat \<Rightarrow> nat \<Rightarrow> nat \<Rightarrow> nat \<Rightarrow> ustr" where
  "spec_difficulty_rule easy_score medium_score hard_score num hard_threshold medium_threshold =
     (if hard_score > 0 \<or> num > hard_threshold then lit ''Hard''
      else if medium_score > easy_score \<or> num > medium_threshold then lit ''Medium''
      else lit ''Easy'')"

definition spec_hard_bonus :: "ustr \<Rightarrow> nat" where
  "spec_hard_bonus constraints_text =
     (if str_in (lit ''10^9'') constraints_text \<or> str_in (lit ''10^8'') constraints_text
      then 2 else 0)"

definition spec_medium_bonus :: "ustr \<Rightarrow> nat" where
  "spec_medium_bonus constraints_text =
     (if str_in (lit ''10^6'') constraints_text \<or> str_in (lit ''10^5'') constraints_text
      then 1 else 0)"

section \<open>Category and tags\<close>

text \<open>The loop of \<open>categorize_problem\<close>: the first category with the highest score wins.\<close>

definition best_category :: "(ustr \<times> ustr list) list \<Rightarrow> ustr \<Rightarrow> ustr" where
  "best_category categories content =
     fst (foldl (\<lambda>(best_category, max_score) (category, keywords).
            let score = keyword_score keywords content
            in if score > max_score then (category, score) else (best_category, max_score))
          (lit ''Implementation'', 0) categories)"

definition categories_improved :: "(ustr \<times> ustr list) list" where
  "categories_improved =
     [(lit ''Arrays & Strings'', [lit ''array'', lit ''string'', lit ''text'', lit ''character'',
         lit ''sequence'', lit ''list'']),
      (lit ''Math & Logic'', [lit ''math'', lit ''number'', lit ''digit'', lit ''calculate'',
         lit ''formula'', lit ''equation'', lit ''arithmetic'']),
      (lit ''Geometry'', [lit ''triangle'', lit ''circle'', lit ''coordinate'', lit ''distance'',
         lit ''angle'', lit ''geometry'', lit ''point'']),
      (lit ''Sorting & Searching'', [lit ''sort'', lit ''search'', lit ''find'', lit ''order'',
         lit ''binary search'', lit ''maximum'', lit ''minimum'']),
      (lit ''Dynamic Programming'', [lit ''dynamic'', lit ''dp'', lit ''optimization'',
         lit ''optimal'', lit ''recursive'']),
      (lit ''Trees & Graphs'', [lit ''tree'', lit ''graph'', lit ''node'', lit ''edge'',
         lit ''path'', lit ''traversal'', lit ''connected'']),
      (lit ''Greedy Algorithms'', [lit ''greedy'', lit ''optimal choice'', lit ''interval'']),
      (lit ''Simulation'', [lit ''simulate'', lit ''game'', lit ''step'', lit ''process'',
         lit ''move'']),
      (lit ''Implementation'', [lit ''implement'', lit ''program'', lit ''algorithm'',
         lit ''output'', lit ''print''])]"

definition categorize_problem_improved :: "unicode \<Rightarrow> sections \<Rightarrow> ustr" where
  "categorize_problem_improved U sections =
     best_category categories_improved
       (uc_lower U (join (lit '' '')
          [dict_get sections (lit ''title'') [], dict_get sections (lit ''description'') []]))"

definition categories_earlier :: "(ustr \<times> ustr list) list" where
  "categories_earlier =
     [(lit ''Arrays & Strings'', [lit ''array'', lit ''string'', lit ''text'', lit ''character'',
         lit ''sequence'']),
      (lit ''Math & Logic'', [lit ''math'', lit ''number'', lit ''digit'', lit ''calculate'',
         lit ''formula'', lit ''equation'']),
      (lit ''Geometry'', [lit ''triangle'', lit ''circle'', lit ''coordinate'', lit ''distance'',
         lit ''angle'', lit ''geometry'']),
      (lit ''Sorting & Searching'', [lit ''sort'', lit ''search'', lit ''find'', lit ''order'',
         lit ''binary search'']),
      (lit ''Dynamic Programming'', [lit ''dynamic'', lit ''dp'', lit ''optimization'',
         lit ''maximum'', lit ''minimum'']),
      (lit ''Trees & Graphs'', [lit ''tree'', lit ''graph'', lit ''node'', lit ''edge'',
         lit ''path'', lit ''traversal'']),
      (lit ''Greedy Algorithms'', [lit ''greedy'', lit ''optimal'', lit ''choice'']),
      (lit ''Simulation'', [lit ''simulate'', lit ''game'', lit ''step'', lit ''process'']),
      (lit ''Implementation'', [lit ''implement'', lit ''program'', lit ''algorithm''])]"

definition categorize_problem :: "unicode \<Rightarrow> sections \<Rightarrow> ustr" where
  "categorize_problem U sections =
     best_category categories_earlier
       (uc_lower U (dict_get sections (lit ''description'') [] @ lit '' ''
          @ dict_get sections (lit ''title'') []))"

text \<open>The tag loop of both entry points: the tags whose keyword list has a hit, in table
  order, or \<open>implementation\<close> alone.\<close>

definition generate_tags :: "(ustr \<times> ustr list) list \<Rightarrow> ustr \<Rightarrow> ustr list" where
  "generate_tags tag_keywords content_lower =
     (let tags = map fst (filter (\<lambda>(tag, keywords). list_ex (\<lambda>keyword. str_in keyword content_lower)
                                     keywords) tag_keywords)
      in if tags = [] then [lit ''implementation''] else tags)"

definition tag_keywords_improved :: "(ustr \<times> ustr list) list" where
  "tag_keywords_improved =
     [(lit ''array'', [lit ''array'', lit ''list'', lit ''sequence'']),
      (lit ''string'', [lit ''string'', lit ''text'', lit ''character'']),
      (lit ''math'', [lit ''math'', lit ''number'', lit ''calculation'', lit ''arithmetic'']),
      (lit ''geometry'', [lit ''triangle'', lit ''circle'', lit ''coordinate'', lit ''geometry'']),
      (lit ''sorting'', [lit ''sort'', lit ''order'', lit ''maximum'', lit ''minimum'']),
      (lit ''graph'', [lit ''graph'', lit ''tree'', lit ''node'', lit ''path'']),
      (lit ''simulation'', [lit ''simulate'', lit ''game'', lit ''process'']),
      (lit ''implementation'', [lit ''implement'', lit ''program'', lit ''output''])]"

definition tag_keywords_earlier :: "(ustr \<times> ustr list) list" where
  "tag_keywords_earlier =
     [(lit ''array'', [lit ''array'', lit ''list'']),
      (lit ''string'', [lit ''string'', lit ''text'', lit ''character'']),
      (lit ''math'', [lit ''math'', lit ''number'', lit ''calculation'']),
      (lit ''geometry'', [lit ''triangle'', lit ''circle'', lit ''coordinate'']),
      (lit ''sorting'', [lit ''sort'', lit ''order'']),
      (lit ''graph'', [lit ''graph'', lit ''tree'', lit ''node'']),
      (lit ''simulation'', [lit ''simulate'', lit ''game'']),
      (lit ''implementation'', [lit ''implement'', lit ''program''])]"

section \<open>Regular expressions\<close>

text \<open>
  The part of Python's \<open>re\<close> that the range patterns use: a pattern is a sequence of
  character classes, each taken once or repeated greedily, and a repetition may be a capture
  group. Matching backtracks as \<open>re\<close> does: a repetition first takes the longest run and
  gives characters back one at a time.
\<close>

datatype cclass = Digit | Space | Word | OneOf "nat list"

datatype item = One cclass | Many bool cclass nat
  \<comment> \<open>\<open>Many capture cls n\<close>: at least \<open>n\<close> of \<open>cls\<close>, greedy; \<open>capture\<close> for a group\<close>

fun in_class :: "unicode \<Rightarrow> cclass \<Rightarrow> nat \<Rightarrow> bool" where
  "in_class U Digit c = (uc_decimal U c \<noteq> None)"
| "in_class U Space c = isspace c"
| "in_class U Word c = (uc_isalnum U c \<or> c = 95)"
| "in_class U (OneOf cs) c = (c \<in> set cs)"

text \<open>The ways to split \<open>s\<close> after a run of characters satisfying \<open>P\<close>, longest run
  first; \<open>taken\<close> is the run collected so far.\<close>

fun run_splits :: "(nat \<Rightarrow> bool) \<Rightarrow> ustr \<Rightarrow> ustr \<Rightarrow> (ustr \<times> ustr) list" where
  "run_splits P taken [] = [(taken, [])]"
| "run_splits P taken (c # cs) =
     (if P c then run_splits P (taken @ [c]) cs else []) @ [(taken, c # cs)]"

fun first_some :: "'a option list \<Rightarrow> 'a option" where
  "first_some [] = None"
| "first_some (None # xs) = first_some xs"
| "first_some (Some x # xs) = Some x"

text \<open>A match at the start of \<open>s\<close>: the captured groups and the rest of the string.\<close>

fun rx_match :: "unicode \<Rightarrow> item list \<Rightarrow> ustr \<Rightarrow> (ustr list \<times> ustr) option" where
  "rx_match U [] s = Some ([], s)"
| "rx_match U (One cls # items) s =
     (case s of [] \<Rightarrow> None
      | c # cs \<Rightarrow> if in_class U cls c then rx_match U items cs else None)"
| "rx_match U (Many capture cls n # items) s =
     first_some (map (\<lambda>(taken, rest).
         if length taken < n then None
         else (case rx_match U items rest of
                 None \<Rightarrow> None
               | Some (groups, rest') \<Rightarrow>
                   Some (if capture then taken # groups else groups, rest')))
       (run_splits (in_class U cls) [] s))"

text \<open>
  \<open>re.findall\<close>: the matches from left to right without overlaps. Each element is what
  \<open>findall\<close> returns for a match: the whole match when the pattern has no group, the group
  when it has one, the tuple of groups otherwise.
\<close>

datatype found = Str ustr | Tuple "ustr list"

definition found_of :: "ustr \<Rightarrow> ustr list \<Rightarrow> found" where
  "found_of whole groups =
     (case groups of [] \<Rightarrow> Str whole | [g] \<Rightarrow> Str g | _ \<Rightarrow> Tuple groups)"

function findall_from :: "unicode \<Rightarrow> item list \<Rightarrow> ustr \<Rightarrow> found list" where
  "findall_from U pattern [] =
     (case rx_match U pattern [] of None \<Rightarrow> [] | Some (groups, rest) \<Rightarrow> [found_of [] groups])"
| "findall_from U pattern (c # cs) =
     (case rx_match U pattern (c # cs) of
        None \<Rightarrow> findall_from U pattern cs
      | Some (groups, rest) \<Rightarrow>
          found_of (take (length (c # cs) - length rest) (c # cs)) groups
            # (if length rest < length (c # cs) then findall_from U pattern rest
               else findall_from U pattern cs))"
  by pat_completeness auto
termination
  by (relation "measure (\<lambda>(U, pattern, s). length s)") auto

definition findall :: "unicode \<Rightarrow> item list \<Rightarrow> ustr \<Rightarrow> found list" where
  "findall U pattern s = findall_from U pattern s"

section \<open>Constraints\<close>

record constraints =
  timeLimit :: "ustr option"
  memoryLimit :: "ustr option"
  ic_description :: ustr
  ic_ranges :: ustr
  languageRestrictions :: "ustr list"

text \<open>The character class \<open>[\<le><=]\<close> and the three patterns of \<open>range_patterns\<close>:
  \<^verbatim>\<open>(\d+)\s*[...]\s*\w+\s*[...]\s*(\d+)\<close>, \<^verbatim>\<open>\w+\s*[...]\s*(\d+)\<close> and
  \<^verbatim>\<open>(\d+)\s*[...]\s*\w+\<close>.\<close>

definition le_sign :: cclass where
  "le_sign = OneOf [8804, 60, 61]"

definition range_patterns :: "item list list" where
  "range_patterns =
     [[Many True Digit 1, Many False Space 0, One le_sign, Many False Space 0,
       Many False Word 1, Many False Space 0, One le_sign, Many False Space 0,
       Many True Digit 1],
      [Many False Word 1, Many False Space 0, One le_sign, Many False Space 0,
       Many True Digit 1],
      [Many True Digit 1, Many False Space 0, One le_sign, Many False Space 0,
       Many False Word 1]]"

text \<open>\<open>' '.join(match) if isinstance(match, tuple) else str(match)\<close>.\<close>

fun fragment :: "found \<Rightarrow> ustr" where
  "fragment (Tuple groups) = join (lit '' '') groups"
| "fragment (Str g) = g"

text \<open>The loop over \<open>range_patterns\<close> and the join, shared by both pipelines; the result is
  the \<open>ranges\<close> field, which starts as the empty string.\<close>

definition extract_ranges :: "unicode \<Rightarrow> ustr \<Rightarrow> ustr" where
  "extract_ranges U constraints_text =
     (let ranges = foldl (\<lambda>ranges pattern.
                      ranges @ map fragment (findall U pattern constraints_text))
                    [] range_patterns
      in if ranges \<noteq> [] then join (lit ''; '') ranges else [])"

text \<open>\<open>extract_constraints_from_sections\<close> (earlier pipeline): the text of the first key
  containing \<open>constraint\<close>.\<close>

definition find_constraints_text :: "unicode \<Rightarrow> sections \<Rightarrow> ustr" where
  "find_constraints_text U sections =
     (case filter (\<lambda>(key, v). str_in (lit ''constraint'') (uc_lower U key)) sections of
        [] \<Rightarrow> [] | (key, v) # _ \<Rightarrow> v)"

definition extract_constraints_from_sections :: "unicode \<Rightarrow> sections \<Rightarrow> constraints" where
  "extract_constraints_from_sections U sections =
     (let constraints_text = find_constraints_text U sections
      in if constraints_text \<noteq> []
         then \<lparr>timeLimit = None, memoryLimit = None, ic_description = constraints_text,
               ic_ranges = extract_ranges U constraints_text, languageRestrictions = []\<rparr>
         else \<lparr>timeLimit = None, memoryLimit = None, ic_description = [], ic_ranges = [],
               languageRestrictions = []\<rparr>)"

text \<open>The constraints block of \<open>extract_problem_improved\<close> (improved pipeline).\<close>

definition build_constraints :: "unicode \<Rightarrow> sections \<Rightarrow> constraints" where
  "build_constraints U sections =
     (let constraints_text = dict_get sections (lit ''constraints'') []
      in \<lparr>timeLimit = None, memoryLimit = None,
          ic_description = dict_get sections (lit ''constraints'') [],
          ic_ranges = (if constraints_text \<noteq> [] then extract_ranges U constraints_text else []),
          languageRestrictions = []\<rparr>)"

section \<open>Floating point\<close>

text \<open>
  A Python \<open>float\<close> is a binary64 number, here the real number it denotes. \<open>fl\<close> rounds a
  positive real to the nearest number with a 53-bit significand, ties to even (the exponent
  range plays no part for the values of this program); a decimal literal denotes \<open>fl\<close> of
  its value, and \<open>+\<close> is \<open>fadd\<close>.
\<close>

definition pow2 :: "int \<Rightarrow> real" where
  "pow2 e = (if 0 \<le> e then 2 ^ nat e else 1 / 2 ^ nat (- e))"

fun log2floor :: "nat \<Rightarrow> nat" where
  "log2floor n = (if n < 2 then 0 else Suc (log2floor (n div 2)))"

declare log2floor.simps [simp del]

text \<open>The exponent \<open>e\<close> with \<open>2 ^ e \<le> x < 2 ^ (e + 1)\<close>, for \<open>x > 0\<close>.\<close>

definition binade :: "real \<Rightarrow> int" where
  "binade x =
     (if 1 \<le> x then int (log2floor (nat \<lfloor>x\<rfloor>))
      else (let l = int (log2floor (nat \<lfloor>1 / x\<rfloor>))
            in if x * pow2 l = 1 then - l else - (l + 1)))"

definition round_half_even :: "real \<Rightarrow> int" where
  "round_half_even q =
     (let f = \<lfloor>q\<rfloor>; r = q - of_int f
      in if r < 1 / 2 then f else if 1 / 2 < r then f + 1
         else if even f then f else f + 1)"

definition fl :: "real \<Rightarrow> real" where
  "fl x = (if x \<le> 0 then 0
           else let u = pow2 (binade x - 52) in of_int (round_half_even (x / u)) * u)"

definition fadd :: "real \<Rightarrow> real \<Rightarrow> real" where
  "fadd a b = fl (a + b)"

section \<open>The library boundary\<close>

text \<open>
  The HTML parser (BeautifulSoup) is not part of the repository. A parsed document is
  modelled by what the sources ask of it: each field below is the result of one call that
  the sources make on the document, on a tag or on a sibling. Nothing is assumed about how
  the results relate to each other, so every theorem holds whatever the parser does.
\<close>

record node =
  nd_name :: "ustr option"
    \<comment> \<open>\<open>current.name\<close>; \<open>None\<close> without the attribute or when it is \<open>None\<close>\<close>
  nd_get_text :: "ustr option"
    \<comment> \<open>\<open>current.get_text()\<close>; \<open>None\<close> without the attribute\<close>
  nd_str :: "ustr option"
    \<comment> \<open>the string itself when \<open>isinstance(current, str)\<close>\<close>
  nd_truthy :: bool
    \<comment> \<open>\<open>bool(current)\<close>, as tested by \<open>while current\<close>\<close>
  nd_is_next_section :: bool
    \<comment> \<open>\<open>current == next_section\<close> in the walk after a Problem Statement heading\<close>

record tag =
  tg_get_text :: ustr
    \<comment> \<open>\<open>tag.get_text()\<close>\<close>
  tg_str :: ustr
    \<comment> \<open>\<open>str(tag)\<close>\<close>
  tg_parent_text :: "ustr option"
    \<comment> \<open>\<open>tag.parent.get_text()\<close> when there is a parent\<close>
  tg_next_siblings :: "node list"
    \<comment> \<open>\<open>tag.next_sibling\<close>, its \<open>next_sibling\<close>, and so on up to \<open>None\<close>\<close>

record soup =
  find_h1 :: "tag option"
    \<comment> \<open>\<open>soup.find('h1')\<close>\<close>
  find_problem_statement :: "tag option"
    \<comment> \<open>\<open>soup.find('h3', string='Problem Statement')\<close>\<close>
  find_all_headings :: "tag list"
    \<comment> \<open>\<open>soup.find_all(['h1', 'h2', 'h3', 'title'])\<close>\<close>
  comments :: "ustr list"
    \<comment> \<open>\<open>soup.find_all(string=lambda text: isinstance(text, Comment))\<close>\<close>
  find_first_section :: "tag option"
    \<comment> \<open>\<open>soup.find(['h2', 'h3'], string=re.compile(...))\<close> for Input, Constraints and
        their Japanese names\<close>
  body_elements :: "tag list"
    \<comment> \<open>\<open>find_all(['p', 'div'])\<close> on \<open>soup.find('body')\<close>, or on the soup without a body\<close>
  find_header :: "ustr \<Rightarrow> tag option"
    \<comment> \<open>\<open>soup.find(['h2', 'h3'], string=re.compile(re.escape(name), re.I))\<close>\<close>
  body_chain :: "node list"
    \<comment> \<open>\<open>soup.find('body')\<close> followed by its \<open>next_sibling\<close> chain; empty without a body\<close>
  find_all_h2 :: "tag list"
    \<comment> \<open>\<open>soup.find_all('h2')\<close>\<close>

text \<open>
  The environment of one run: the Unicode tables, the file system, the calls that parse
  markup and the standard output, each of which may raise.
\<close>

record env =
  tables :: unicode
  read_file :: "ustr \<Rightarrow> exn + ustr"
    \<comment> \<open>\<open>open(file_path, 'r', encoding='utf-8', errors='ignore')\<close> and \<open>f.read()\<close>\<close>
  path_stem :: "ustr \<Rightarrow> ustr"
    \<comment> \<open>\<open>Path(file_path).stem\<close>\<close>
  BeautifulSoup :: "ustr \<Rightarrow> exn + soup"
    \<comment> \<open>\<open>BeautifulSoup(html_content, 'html.parser')\<close>\<close>
  soup_text :: "ustr \<Rightarrow> exn + ustr"
    \<comment> \<open>in \<open>clean_html_text\<close>: parse, decompose \<open>script\<close> and \<open>style\<close>, \<open>soup.get_text()\<close>\<close>
  soup_str :: "ustr \<Rightarrow> exn + ustr"
    \<comment> \<open>in \<open>extract_from_comments\<close>: \<open>str(BeautifulSoup(comment, 'html.parser'))\<close>\<close>
  print_line :: "ustr \<Rightarrow> exn option"
    \<comment> \<open>\<open>print(line)\<close>: \<open>None\<close> when the line is written, the exception that
        \<open>print\<close> raises otherwise (an encoding error, a closed or broken output)\<close>

section \<open>Text cleaning and comments\<close>

text \<open>\<open>clean_html_text\<close> (both pipelines).\<close>

definition clean_html_text :: "env \<Rightarrow> ustr \<Rightarrow> exn + ustr" where
  "clean_html_text E html_content =
     (if html_content = [] then Inr []
      else case soup_text E html_content of
             Inl e \<Rightarrow> Inl e
           | Inr text \<Rightarrow>
               (let lines = map strip (splitlines text);
                    chunks = concat (map (\<lambda>line. map strip (split line (lit ''  ''))) lines)
                in Inr (join (lit '' '') (filter (\<lambda>chunk. chunk \<noteq> []) chunks))))"

text \<open>\<open>extract_from_comments\<close>: a comment whose parsing raises contributes nothing.\<close>

definition comment_text :: "env \<Rightarrow> ustr \<Rightarrow> ustr option" where
  "comment_text E comment =
     (case soup_str E comment of
        Inl e \<Rightarrow> None
      | Inr comment_soup \<Rightarrow>
          (case clean_html_text E comment_soup of
             Inl e \<Rightarrow> None
           | Inr text \<Rightarrow> if text \<noteq> [] \<and> length text > 20 then Some text else None))"

definition extract_from_comments :: "env \<Rightarrow> soup \<Rightarrow> ustr" where
  "extract_from_comments E soup =
     join (lit '' '') (List.map_filter (comment_text E) (comments soup))"

section \<open>The improved pipeline\<close>

subsection \<open>Title\<close>

definition title_from_problem_statement :: "soup \<Rightarrow> ustr option" where
  "title_from_problem_statement soup =
     (case find_problem_statement soup of
        None \<Rightarrow> None
      | Some problem_section \<Rightarrow>
          (case tg_parent_text problem_section of
             None \<Rightarrow> None
           | Some parent_text \<Rightarrow>
               map_option strip
                 (find (\<lambda>line. strip line \<noteq> [] \<and> \<not> str_in (lit ''Problem Statement'') line
                           \<and> length (strip line) < 100)
                    (split (strip parent_text) [10]))))"

definition title_stoplist :: "ustr list" where
  "title_stoplist = [lit ''Input'', lit ''Output'', lit ''Constraints'', lit ''Sample Input'',
     lit ''Sample Output'']"

definition title_from_headings :: "soup \<Rightarrow> ustr option" where
  "title_from_headings soup =
     map_option (\<lambda>tag. strip (tg_get_text tag))
       (find (\<lambda>tag. let text = strip (tg_get_text tag)
                    in text \<noteq> [] \<and> length text < 100 \<and> text \<notin> set title_stoplist)
          (find_all_headings soup))"

definition title_from_comments :: "env \<Rightarrow> soup \<Rightarrow> ustr option" where
  "title_from_comments E soup =
     (let comment_content = extract_from_comments E soup
      in if comment_content \<noteq> []
         then map_option strip
                (find (\<lambda>line. strip line \<noteq> [] \<and> length (strip line) < 200)
                   (take 3 (split comment_content [12290])))
         else None)"

text \<open>\<open>extract_title_flexible\<close>: the four strategies in order; only the first one parses
  markup again and may raise.\<close>

definition extract_title_flexible :: "env \<Rightarrow> soup \<Rightarrow> exn + ustr" where
  "extract_title_flexible E soup =
     (case (case find_h1 soup of
              None \<Rightarrow> None
            | Some title_tag \<Rightarrow> if strip (tg_get_text title_tag) \<noteq> [] then Some title_tag else None) of
        Some title_tag \<Rightarrow> clean_html_text E (tg_str title_tag)
      | None \<Rightarrow>
          Inr (case title_from_problem_statement soup of
                 Some t \<Rightarrow> t
               | None \<Rightarrow>
                   (case title_from_headings soup of
                      Some t \<Rightarrow> t
                    | None \<Rightarrow>
                        (case title_from_comments E soup of Some t \<Rightarrow> t | None \<Rightarrow> []))))"

subsection \<open>Description\<close>

text \<open>Strategy 1: the paragraphs and divisions that name no section, when a first section
  heading exists.\<close>

definition direct_description_parts :: "soup \<Rightarrow> ustr list" where
  "direct_description_parts soup =
     (case find_first_section soup of
        None \<Rightarrow> []
      | Some first_section \<Rightarrow>
          map (\<lambda>element. strip (tg_get_text element))
            (filter (\<lambda>element. strip (tg_get_text element) \<noteq> []
                       \<and> \<not> list_ex (\<lambda>section_word. str_in section_word (tg_get_text element))
                             [lit ''Input'', lit ''Output'', lit ''Constraints'', lit ''Sample''])
               (body_elements soup)))"

text \<open>Strategy 2: what is appended when the text so far is shorter than 50 characters.\<close>

definition comment_description_parts :: "env \<Rightarrow> soup \<Rightarrow> ustr list \<Rightarrow> ustr list" where
  "comment_description_parts E soup description_parts =
     (if length (join (lit '' '') description_parts) < 50
      then (let comment_content = extract_from_comments E soup
            in if comment_content \<noteq> [] then [comment_content] else [])
      else [])"

text \<open>Strategy 3: the siblings after a Problem Statement heading, up to the next section.\<close>

fun statement_walk :: "node list \<Rightarrow> ustr list" where
  "statement_walk [] = []"
| "statement_walk (current # rest) =
     (if nd_truthy current \<and> \<not> nd_is_next_section current
      then (case nd_get_text current of
              None \<Rightarrow> []
            | Some text \<Rightarrow> if strip text \<noteq> [] then [strip text] else [])
           @ statement_walk rest
      else [])"

definition statement_description_parts :: "soup \<Rightarrow> ustr list" where
  "statement_description_parts soup =
     (case find_problem_statement soup of
        None \<Rightarrow> []
      | Some problem_statement \<Rightarrow> statement_walk (tg_next_siblings problem_statement))"

subsection \<open>Sections\<close>

definition section_mappings :: "(ustr \<times> ustr list) list" where
  "section_mappings =
     [(lit ''input'', [lit ''Input'', [20837, 21147], lit ''input'']),
      (lit ''output'', [lit ''Output'', [20986, 21147], lit ''output'']),
      (lit ''constraints'', [lit ''Constraints'', [21046, 32004], lit ''constraints'']),
      (lit ''sample input'', [lit ''Sample Input'', lit ''Sample Input 1'',
         [20837, 21147, 20363], lit ''sample input'']),
      (lit ''sample output'', [lit ''Sample Output'', lit ''Sample Output 1'',
         [20986, 21147, 20363], lit ''sample output''])]"

definition is_heading :: "unicode \<Rightarrow> ustr list \<Rightarrow> node \<Rightarrow> bool" where
  "is_heading U names current =
     (case nd_name current of
        None \<Rightarrow> False
      | Some name \<Rightarrow> name \<noteq> [] \<and> uc_lower U name \<in> set names)"

text \<open>The texts of the siblings after a header, up to the next \<open>h2\<close> or \<open>h3\<close>.\<close>

fun header_walk :: "unicode \<Rightarrow> node list \<Rightarrow> ustr list" where
  "header_walk U [] = []"
| "header_walk U (current # rest) =
     (if \<not> nd_truthy current then []
      else if is_heading U [lit ''h2'', lit ''h3''] current then []
      else (case nd_get_text current of
              None \<Rightarrow> []
            | Some text \<Rightarrow> if strip text \<noteq> [] then [strip text] else [])
           @ header_walk U rest)"

text \<open>The inner loop over the possible names of one section: the first name whose header
  has content.\<close>

definition find_section_text :: "unicode \<Rightarrow> soup \<Rightarrow> ustr list \<Rightarrow> ustr option" where
  "find_section_text U soup possible_names =
     first_some (map (\<lambda>name.
         case find_header soup name of
           None \<Rightarrow> None
         | Some header \<Rightarrow>
             (let content_parts = header_walk U (tg_next_siblings header)
              in if content_parts \<noteq> [] then Some (join (lit '' '') content_parts) else None))
       possible_names)"

definition add_standard_sections :: "unicode \<Rightarrow> soup \<Rightarrow> sections \<Rightarrow> sections" where
  "add_standard_sections U soup sections =
     foldl (\<lambda>sections (section_key, possible_names).
              case find_section_text U soup possible_names of
                None \<Rightarrow> sections
              | Some text \<Rightarrow> dict_set sections section_key text)
       sections section_mappings"

text \<open>\<open>extract_sections_from_html_improved\<close>.\<close>

definition description_parts_improved :: "env \<Rightarrow> soup \<Rightarrow> ustr list" where
  "description_parts_improved E soup =
     (let description_parts = direct_description_parts soup;
          description_parts = description_parts
                                @ comment_description_parts E soup description_parts
      in description_parts @ statement_description_parts soup)"

definition extract_sections_from_html_improved :: "env \<Rightarrow> ustr \<Rightarrow> exn + sections" where
  "extract_sections_from_html_improved E html_content =
     (case BeautifulSoup E html_content of
        Inl e \<Rightarrow> Inl e
      | Inr soup \<Rightarrow>
          (case extract_title_flexible E soup of
             Inl e \<Rightarrow> Inl e
           | Inr title_text \<Rightarrow>
               (let sections = (if title_text \<noteq> [] then [(lit ''title'', title_text)] else []);
                    sections = dict_set sections (lit ''description'')
                                 (join (lit '' '') (description_parts_improved E soup))
                in Inr (add_standard_sections (tables E) soup sections))))"

subsection \<open>The record\<close>

text \<open>
  The problem object, without the four code templates (a constant table that no claim
  depends on).
\<close>

record basic_info =
  questionId :: ustr
  title :: ustr
  description :: ustr
  difficulty :: ustr
  category :: ustr
  tags :: "ustr list"
  source :: ustr

record metadata =
  extractedFrom :: ustr
  confidence :: real
  md_notes :: ustr

record problem =
  basicInfo :: basic_info
  constraints :: constraints
  examples :: examples
  metadata :: metadata

text \<open>The confidence score, as a function of the four tests of the source.\<close>

definition confidence_score :: "bool \<Rightarrow> bool \<Rightarrow> bool \<Rightarrow> bool \<Rightarrow> real" where
  "confidence_score has_title has_description has_examples has_constraints =
     (let c = fl (5 / 10);
          c = (if has_title then fadd c (fl (1 / 10)) else c);
          c = (if has_description then fadd c (fl (2 / 10)) else c);
          c = (if has_examples then fadd c (fl (2 / 10)) else c);
          c = (if has_constraints then fadd c (fl (1 / 10)) else c)
      in min c (fl 1))"

definition compute_confidence :: "sections \<Rightarrow> examples \<Rightarrow> real" where
  "compute_confidence sections exs =
     confidence_score
       (dict_get sections (lit ''title'') [] \<noteq> [])
       (dict_get sections (lit ''description'') [] \<noteq> []
          \<and> length (dict_get sections (lit ''description'') []) > 50)
       (sampleCases exs \<noteq> [])
       (dict_get sections (lit ''constraints'') [] \<noteq> [])"

text \<open>The substitution of the identifier for a missing title.\<close>

definition with_fallback_title :: "sections \<Rightarrow> ustr \<Rightarrow> sections" where
  "with_fallback_title sections problem_id =
     (if dict_get sections (lit ''title'') [] = []
      then dict_set sections (lit ''title'') (lit ''Problem '' @ problem_id)
      else sections)"

text \<open>The assembly of the problem object from the section map and the difficulty.\<close>

definition assemble_improved :: "env \<Rightarrow> ustr \<Rightarrow> ustr \<Rightarrow> sections \<Rightarrow> ustr \<Rightarrow> problem" where
  "assemble_improved E file_path problem_id sections difficulty_text =
     (let exs = extract_examples_improved sections
      in \<lparr>basicInfo =
            \<lparr>questionId = problem_id,
             title = dict_get sections (lit ''title'') (lit ''Problem '' @ problem_id),
             description = dict_get sections (lit ''description'') [],
             difficulty = difficulty_text,
             category = categorize_problem_improved (tables E) sections,
             tags = generate_tags tag_keywords_improved
                      (uc_lower (tables E)
                         (dict_get sections (lit ''description'') [] @ lit '' ''
                            @ dict_get sections (lit ''title'') [])),
             source = file_path\<rparr>,
          constraints = build_constraints (tables E) sections,
          examples = exs,
          metadata =
            \<lparr>extractedFrom = file_path,
             confidence = compute_confidence sections exs,
             md_notes = lit ''Extracted from Project CodeNet problem '' @ problem_id\<rparr>\<rparr>)"

text \<open>
  \<open>extract_problem_improved\<close>: the body of the \<open>try\<close>, where an exception is a value, and
  the entry point with its \<open>except\<close> handler. The handler prints one line and returns
  \<open>None\<close>; the \<open>print\<close> stands outside any \<open>try\<close>, so an exception that it raises
  leaves the entry point. A normal return carries the result and the lines printed.
\<close>

definition extract_problem_improved_body :: "env \<Rightarrow> ustr \<Rightarrow> exn + problem option" where
  "extract_problem_improved_body E file_path =
     (case read_file E file_path of
        Inl e \<Rightarrow> Inl e
      | Inr html_content \<Rightarrow>
          if strip html_content = [] then Inr None
          else
            (let problem_id = path_stem E file_path
             in case extract_sections_from_html_improved E html_content of
                  Inl e \<Rightarrow> Inl e
                | Inr sections \<Rightarrow>
                    if dict_get sections (lit ''title'') [] = []
                       \<and> dict_get sections (lit ''description'') [] = []
                    then Inr None
                    else
                      (let sections = with_fallback_title sections problem_id
                       in case assess_difficulty_improved (tables E) sections problem_id of
                            Inl e \<Rightarrow> Inl e
                          | Inr difficulty_text \<Rightarrow>
                              Inr (Some (assemble_improved E file_path problem_id sections
                                           difficulty_text)))))"

definition error_line :: "ustr \<Rightarrow> exn \<Rightarrow> ustr" where
  "error_line file_path e = lit ''Error processing '' @ file_path @ lit '': '' @ exn_str e"

definition except_handler :: "env \<Rightarrow> ustr \<Rightarrow> exn \<Rightarrow> exn + problem option \<times> ustr list" where
  "except_handler E file_path e =
     (case print_line E (error_line file_path e) of
        Some print_error \<Rightarrow> Inl print_error
      | None \<Rightarrow> Inr (None, [error_line file_path e]))"

definition extract_problem_improved :: "env \<Rightarrow> ustr \<Rightarrow> exn + problem option \<times> ustr list" where
  "extract_problem_improved E file_path =
     (case extract_problem_improved_body E file_path of
        Inl e \<Rightarrow> except_handler E file_path e
      | Inr result \<Rightarrow> Inr (result, []))"

text \<open>The confidence buckets of \<open>main\<close>.\<close>

definition confidence_level :: "real \<Rightarrow> ustr" where
  "confidence_level conf =
     (if conf \<ge> fl (8 / 10) then lit ''high''
      else if conf \<ge> fl (6 / 10) then lit ''medium''
      else lit ''low'')"

section \<open>The earlier pipeline\<close>

text \<open>The texts of the siblings up to the next \<open>h2\<close>.\<close>

fun h2_walk :: "unicode \<Rightarrow> node list \<Rightarrow> ustr list" where
  "h2_walk U [] = []"
| "h2_walk U (current # rest) =
     (if \<not> nd_truthy current then []
      else if is_heading U [lit ''h2''] current then []
      else (case nd_get_text current of
              Some text \<Rightarrow> if strip text \<noteq> [] then [strip text] else []
            | None \<Rightarrow>
                (case nd_str current of
                   Some str \<Rightarrow> if strip str \<noteq> [] then [strip str] else []
                 | None \<Rightarrow> []))
           @ h2_walk U rest)"

text \<open>The loop over the \<open>h2\<close> tags of \<open>extract_sections_from_html\<close>.\<close>

fun h2_sections :: "env \<Rightarrow> tag list \<Rightarrow> sections \<Rightarrow> exn + sections" where
  "h2_sections E [] sections = Inr sections"
| "h2_sections E (h2 # h2_tags) sections =
     (case clean_html_text E (tg_str h2) of
        Inl e \<Rightarrow> Inl e
      | Inr name \<Rightarrow>
          (let section_name = uc_lower (tables E) name;
               sections = dict_set sections section_name [];
               content_parts = h2_walk (tables E) (tg_next_siblings h2);
               sections = dict_set sections section_name (join (lit '' '') content_parts)
           in h2_sections E h2_tags sections))"

text \<open>\<open>extract_sections_from_html\<close>.\<close>

definition extract_sections_from_html :: "env \<Rightarrow> ustr \<Rightarrow> exn + sections" where
  "extract_sections_from_html E html_content =
     (case BeautifulSoup E html_content of
        Inl e \<Rightarrow> Inl e
      | Inr soup \<Rightarrow>
          (case (case find_h1 soup of
                   None \<Rightarrow> Inr []
                 | Some title_tag \<Rightarrow>
                     (case clean_html_text E (tg_str title_tag) of
                        Inl e \<Rightarrow> Inl e
                      | Inr title_text \<Rightarrow> Inr [(lit ''title'', title_text)])) of
             Inl e \<Rightarrow> Inl e
           | Inr sections \<Rightarrow>
               (let description_parts =
                      h2_walk (tables E)
                        (case find_h1 soup of
                           None \<Rightarrow> body_chain soup
                         | Some title_tag \<Rightarrow> tg_next_siblings title_tag);
                    sections = dict_set sections (lit ''description'')
                                 (join (lit '' '') description_parts)
                in h2_sections E (find_all_h2 soup) sections)))"

text \<open>The assembly of the problem object in \<open>extract_problem_from_html_file\<close>.\<close>

definition assemble_earlier :: "env \<Rightarrow> ustr \<Rightarrow> ustr \<Rightarrow> sections \<Rightarrow> ustr \<Rightarrow> problem" where
  "assemble_earlier E file_path problem_id sections difficulty_text =
     (let exs = extract_examples_from_sections (tables E) sections
      in \<lparr>basicInfo =
            \<lparr>questionId = problem_id,
             title = replace
                       (replace (dict_get sections (lit ''title'') (lit ''Problem '' @ problem_id))
                          (lit ''Problem F: '') [])
                       (lit ''Problem A: '') [],
             description = dict_get sections (lit ''description'') [],
             difficulty = difficulty_text,
             category = categorize_problem (tables E) sections,
             tags = generate_tags tag_keywords_earlier
                      (uc_lower (tables E)
                         (dict_get sections (lit ''description'') [] @ lit '' ''
                            @ dict_get sections (lit ''title'') [])),
             source = file_path\<rparr>,
          constraints = extract_constraints_from_sections (tables E) sections,
          examples = exs,
          metadata =
            \<lparr>extractedFrom = file_path,
             confidence = (if dict_get sections (lit ''description'') [] \<noteq> []
                              \<and> sampleCases exs \<noteq> []
                           then fl (8 / 10) else fl (6 / 10)),
             md_notes = lit ''Extracted from Project CodeNet problem '' @ problem_id\<rparr>\<rparr>)"

text \<open>\<open>extract_problem_from_html_file\<close>: body and entry point.\<close>

definition extract_problem_from_html_file_body :: "env \<Rightarrow> ustr \<Rightarrow> exn + problem option" where
  "extract_problem_from_html_file_body E file_path =
     (case read_file E file_path of
        Inl e \<Rightarrow> Inl e
      | Inr html_content \<Rightarrow>
          if strip html_content = [] then Inr None
          else
            (let problem_id = path_stem E file_path
             in case extract_sections_from_html E html_content of
                  Inl e \<Rightarrow> Inl e
                | Inr sections \<Rightarrow>
                    if dict_get sections (lit ''title'') [] = [] then Inr None
                    else
                      (case assess_difficulty (tables E) sections problem_id of
                         Inl e \<Rightarrow> Inl e
                       | Inr difficulty_text \<Rightarrow>
                           Inr (Some (assemble_earlier E file_path problem_id sections
                                        difficulty_text)))))"

definition extract_problem_from_html_file ::
  "env \<Rightarrow> ustr \<Rightarrow> exn + problem option \<times> ustr list" where
  "extract_problem_from_html_file E file_path =
     (case extract_problem_from_html_file_body E file_path of
        Inl e \<Rightarrow> except_handler E file_path e
      | Inr result \<Rightarrow> Inr (result, []))"

section \<open>Example documents\<close>

text \<open>
  Four small documents as the parser presents them, and an environment that holds them as
  files. They serve as concrete inputs below.
\<close>

definition element_node :: "ustr \<Rightarrow> ustr \<Rightarrow> node" where
  "element_node name text =
     \<lparr>nd_name = Some name, nd_get_text = Some text, nd_str = None, nd_truthy = True,
      nd_is_next_section = False\<rparr>"

definition string_node :: "ustr \<Rightarrow> ustr \<Rightarrow> node" where
  "string_node str text =
     \<lparr>nd_name = None, nd_get_text = Some text, nd_str = Some str, nd_truthy = (str \<noteq> []),
      nd_is_next_section = False\<rparr>"

text \<open>\<^verbatim>\<open><h1>Add Two Numbers</h1><h2>Constraints</h2><p>1 <= N <= 100</p>\<close>, with the sign
  \<open>\<le>\<close> (code point 8804) for each \<^verbatim>\<open><=\<close>.\<close>

definition range_text :: ustr where
  "range_text = lit ''1 '' @ [8804] @ lit '' N '' @ [8804] @ lit '' 100''"

definition add_html :: ustr where
  "add_html = lit ''<h1>Add Two Numbers</h1><h2>Constraints</h2><p>'' @ range_text @ lit ''</p>''"

definition add_h2 :: tag where
  "add_h2 = \<lparr>tg_get_text = lit ''Constraints'', tg_str = lit ''<h2>Constraints</h2>'',
     tg_parent_text = Some (lit ''Add Two NumbersConstraints'' @ range_text),
     tg_next_siblings = [element_node (lit ''p'') range_text]\<rparr>"

definition add_h1 :: tag where
  "add_h1 = \<lparr>tg_get_text = lit ''Add Two Numbers'', tg_str = lit ''<h1>Add Two Numbers</h1>'',
     tg_parent_text = Some (lit ''Add Two NumbersConstraints'' @ range_text),
     tg_next_siblings = [element_node (lit ''h2'') (lit ''Constraints''),
                         element_node (lit ''p'') range_text]\<rparr>"

definition add_soup :: soup where
  "add_soup =
     \<lparr>find_h1 = Some add_h1,
      find_problem_statement = None,
      find_all_headings = [add_h1, add_h2],
      comments = [],
      find_first_section = Some add_h2,
      body_elements = [\<lparr>tg_get_text = range_text, tg_str = lit ''<p>'' @ range_text @ lit ''</p>'',
         tg_parent_text = Some (lit ''Add Two NumbersConstraints'' @ range_text),
         tg_next_siblings = []\<rparr>],
      find_header = (\<lambda>name. if name = lit ''Constraints'' \<or> name = lit ''constraints''
                            then Some add_h2 else None),
      body_chain = [],
      find_all_h2 = [add_h2]\<rparr>"

text \<open>The section map of the improved pipeline for this document.\<close>

definition add_sections :: sections where
  "add_sections = [(lit ''title'', lit ''Add Two Numbers''), (lit ''description'', range_text),
     (lit ''constraints'', range_text)]"

text \<open>The section map of the earlier pipeline for this document.\<close>

definition add_sections_earlier :: sections where
  "add_sections_earlier = [(lit ''title'', lit ''Add Two Numbers''), (lit ''description'', []),
     (lit ''constraints'', range_text)]"

text \<open>\<^verbatim>\<open><body><p>Compute the sum.</p></body>\<close>: a text and no heading.\<close>

definition sum_html :: ustr where
  "sum_html = lit ''<body><p>Compute the sum.</p></body>''"

definition sum_soup :: soup where
  "sum_soup =
     \<lparr>find_h1 = None,
      find_problem_statement = None,
      find_all_headings = [],
      comments = [],
      find_first_section = None,
      body_elements = [\<lparr>tg_get_text = lit ''Compute the sum.'',
         tg_str = lit ''<p>Compute the sum.</p>'',
         tg_parent_text = Some (lit ''Compute the sum.''), tg_next_siblings = []\<rparr>],
      find_header = (\<lambda>name. None),
      body_chain = [element_node (lit ''body'') (lit ''Compute the sum.'')],
      find_all_h2 = []\<rparr>"

text \<open>\<^verbatim>\<open><h1>Problem A: Sum</h1>\<close>: a heading with a contest prefix.\<close>

definition prefix_html :: ustr where
  "prefix_html = lit ''<h1>Problem A: Sum</h1>''"

definition prefix_h1 :: tag where
  "prefix_h1 = \<lparr>tg_get_text = lit ''Problem A: Sum'', tg_str = lit ''<h1>Problem A: Sum</h1>'',
     tg_parent_text = Some (lit ''Problem A: Sum''), tg_next_siblings = []\<rparr>"

definition prefix_soup :: soup where
  "prefix_soup =
     \<lparr>find_h1 = Some prefix_h1,
      find_problem_statement = None,
      find_all_headings = [prefix_h1],
      comments = [],
      find_first_section = None,
      body_elements = [],
      find_header = (\<lambda>name. None),
      body_chain = [],
      find_all_h2 = []\<rparr>"

text \<open>The section map of the earlier pipeline for this document.\<close>

definition prefix_sections_earlier :: sections where
  "prefix_sections_earlier = [(lit ''title'', lit ''Problem A: Sum''), (lit ''description'', [])]"

text \<open>\<^verbatim>\<open><h2>Input</h2><p>Short text.</p><!-- <p>This comment holds the real
  statement.</p> -->\<close>: a short visible text and a comment.\<close>

definition comment_markup :: ustr where
  "comment_markup = lit '' <p>This comment holds the real statement.</p> ''"

definition comment_html :: ustr where
  "comment_html = lit ''<h2>Input</h2><p>Short text.</p><!--'' @ comment_markup @ lit ''-->''"

definition comment_h2 :: tag where
  "comment_h2 = \<lparr>tg_get_text = lit ''Input'', tg_str = lit ''<h2>Input</h2>'',
     tg_parent_text = Some (lit ''InputShort text.''),
     tg_next_siblings = [element_node (lit ''p'') (lit ''Short text.''),
                         string_node comment_markup []]\<rparr>"

definition comment_soup :: soup where
  "comment_soup =
     \<lparr>find_h1 = None,
      find_problem_statement = None,
      find_all_headings = [comment_h2],
      comments = [comment_markup],
      find_first_section = Some comment_h2,
      body_elements = [\<lparr>tg_get_text = lit ''Short text.'', tg_str = lit ''<p>Short text.</p>'',
         tg_parent_text = Some (lit ''InputShort text.''),
         tg_next_siblings = [string_node comment_markup []]\<rparr>],
      find_header = (\<lambda>name. if name = lit ''Input'' \<or> name = lit ''input''
                            then Some comment_h2 else None),
      body_chain = [],
      find_all_h2 = [comment_h2]\<rparr>"

text \<open>The text that the comment yields, and the section map of the improved pipeline for this
  document.\<close>

definition comment_statement :: ustr where
  "comment_statement = lit ''This comment holds the real statement.''"

definition comment_sections :: sections where
  "comment_sections =
     [(lit ''title'', comment_statement),
      (lit ''description'', lit ''Short text. '' @ comment_statement),
      (lit ''input'', lit ''Short text.'')]"

text \<open>
  A standard output with the ASCII encoding: \<open>print\<close> raises \<open>UnicodeEncodeError\<close> on a
  line that has a code point above 127, and writes any other line. The message of the
  exception is shortened to its last part; nothing depends on it.
\<close>

definition ascii_print :: "ustr \<Rightarrow> exn option" where
  "ascii_print line =
     (if list_all (\<lambda>c. c < 128) line then None
      else Some (UnicodeEncodeError (lit ''ordinal not in range(128)'')))"

text \<open>
  The files: the four documents, the first one a second time under a name whose number is a
  superscript two, and a file of blanks. Any other path does not exist.
\<close>

definition demo_files :: "(ustr \<times> ustr) list" where
  "demo_files =
     [(lit ''p00001.html'', add_html),
      (lit ''p00002.html'', sum_html),
      (lit ''p00003.html'', prefix_html),
      (lit ''p00004.html'', comment_html),
      ([112, 178] @ lit ''.html'', add_html),
      (lit ''p00005.html'', [32, 10, 9, 32])]"

definition demo_env :: env where
  "demo_env =
     \<lparr>tables = latin1,
      read_file = (\<lambda>file_path.
         case map_of demo_files file_path of
           Some html_content \<Rightarrow> Inr html_content
         | None \<Rightarrow> Inl (OSError (lit ''[Errno 2] No such file or directory: ''
                                   @ [39] @ file_path @ [39]))),
      path_stem = (\<lambda>file_path. take (length file_path - 5) file_path),
      BeautifulSoup = (\<lambda>html_content.
         case map_of [(add_html, add_soup), (sum_html, sum_soup), (prefix_html, prefix_soup),
                      (comment_html, comment_soup)] html_content of
           Some soup \<Rightarrow> Inr soup
         | None \<Rightarrow> Inl (LibraryError (lit ''unknown document''))),
      soup_text = (\<lambda>markup.
         case map_of [(lit ''<h1>Add Two Numbers</h1>'', lit ''Add Two Numbers''),
                      (lit ''<h2>Constraints</h2>'', lit ''Constraints''),
                      (lit ''<h1>Problem A: Sum</h1>'', lit ''Problem A: Sum''),
                      (lit ''<h2>Input</h2>'', lit ''Input''),
                      (comment_markup, lit '' This comment holds the real statement. '')]
                markup of
           Some text \<Rightarrow> Inr text
         | None \<Rightarrow> Inl (LibraryError (lit ''unknown markup''))),
      soup_str = (\<lambda>comment. Inr comment),
      print_line = ascii_print\<rparr>"

section \<open>Properties\<close>

subsection \<open>Strings and dictionaries\<close>

lemmas str_defs = lit_def strip_def lstrip_def rstrip_def isspace_def dict_get_def
  latin1_def latin1_lower_def

lemma strip_Nil: "strip [] = []"
  by (simp add: strip_def lstrip_def rstrip_def)

lemma startswith_append: "startswith (p @ b) p"
  by (induction p) simp_all

lemma str_in_prefix: "str_in p (p @ b)"
proof (cases "p @ b")
  case Nil
  then show ?thesis by simp
next
  case (Cons c cs)
  have "startswith (p @ b) p" by (rule startswith_append)
  with Cons show ?thesis by simp
qed

lemma str_in_append: "str_in p (a @ p @ b)"
  by (induction a) (simp_all add: str_in_prefix)

lemma replace_absent: "\<not> str_in old s \<Longrightarrow> replace s old new = s"
  by (induction s old new rule: replace.induct) auto

lemma dict_get_dict_set:
  "dict_get (dict_set d k v) k' dflt = (if k' = k then v else dict_get d k' dflt)"
  by (induction d k v rule: dict_set.induct) (auto simp: dict_get_def)

subsection \<open>Examples\<close>

lemma length_concat_map_le:
  "(\<And>x. x \<in> set xs \<Longrightarrow> length (f x) \<le> 1) \<Longrightarrow> length (concat (map f xs)) \<le> length xs"
proof (induction xs)
  case Nil
  then show ?case by simp
next
  case (Cons x xs)
  have "length (f x) \<le> 1"
    by (rule Cons.prems) simp
  moreover have "length (concat (map f xs)) \<le> length xs"
    using Cons.prems by (intro Cons.IH) auto
  ultimately show ?case by simp
qed

lemma earlier_examples_bound:
  "length (sampleCases (extract_examples_from_sections U sections))
     \<le> length (sample_input_keys U sections)"
proof -
  have "length (concat (map f (enumerate 0 (sample_input_keys U sections))))
          \<le> length (enumerate 0 (sample_input_keys U sections))"
    if "\<And>x. length (f x) \<le> 1" for f :: "nat \<times> ustr \<Rightarrow> sample_case list"
    by (rule length_concat_map_le) (rule that)
  then show ?thesis
    by (simp add: extract_examples_from_sections_def Let_def split: prod.splits)
qed

lemma earlier_examples_explanation:
  "list_all (\<lambda>c. sc_explanation c = [])
     (sampleCases (extract_examples_from_sections U sections))"
  by (auto simp: extract_examples_from_sections_def Let_def list_all_iff split: if_splits)

text \<open>
  C6 (as amended). When the section map holds a \<open>sample input\<close> and a \<open>sample output\<close>
  entry that are both non-empty after trimming, the improved extractor returns exactly one
  sample case, with the two trimmed texts and an empty explanation. The earlier extractor
  does so when these two keys are the only ones that its key filters select; with more such
  keys it can return several cases, never more than there are keys containing
  \<open>sample input\<close>, and each with an empty explanation.
\<close>

theorem examples_single_pair:
  "(map_of sections (lit ''sample input'') = Some i \<and>
    map_of sections (lit ''sample output'') = Some out \<and>
    strip i \<noteq> [] \<and> strip out \<noteq> []
    \<longrightarrow> sampleCases (extract_examples_improved sections)
          = [\<lparr>sc_input = strip i, sc_output = strip out, sc_explanation = []\<rparr>])
   \<and> (sample_input_keys U sections = [lit ''sample input''] \<and>
      sample_output_keys U sections = [lit ''sample output''] \<and>
      map_of sections (lit ''sample input'') = Some i \<and>
      map_of sections (lit ''sample output'') = Some out \<and>
      strip i \<noteq> [] \<and> strip out \<noteq> []
      \<longrightarrow> sampleCases (extract_examples_from_sections U sections)
            = [\<lparr>sc_input = strip i, sc_output = strip out, sc_explanation = []\<rparr>])
   \<and> length (sampleCases (extract_examples_from_sections U sections))
        \<le> length (sample_input_keys U sections)
   \<and> list_all (\<lambda>c. sc_explanation c = [])
        (sampleCases (extract_examples_from_sections U sections))"
proof (intro conjI impI)
  assume h: "map_of sections (lit ''sample input'') = Some i \<and>
    map_of sections (lit ''sample output'') = Some out \<and>
    strip i \<noteq> [] \<and> strip out \<noteq> []"
  then have "i \<noteq> []" "out \<noteq> []" using strip_Nil by auto
  with h show "sampleCases (extract_examples_improved sections)
          = [\<lparr>sc_input = strip i, sc_output = strip out, sc_explanation = []\<rparr>]"
    by (simp add: extract_examples_improved_def dict_get_def Let_def)
next
  assume h: "sample_input_keys U sections = [lit ''sample input''] \<and>
      sample_output_keys U sections = [lit ''sample output''] \<and>
      map_of sections (lit ''sample input'') = Some i \<and>
      map_of sections (lit ''sample output'') = Some out \<and>
      strip i \<noteq> [] \<and> strip out \<noteq> []"
  then show "sampleCases (extract_examples_from_sections U sections)
            = [\<lparr>sc_input = strip i, sc_output = strip out, sc_explanation = []\<rparr>]"
    by (simp add: extract_examples_from_sections_def dict_get_def Let_def enumerate_eq_zip)
next
  show "length (sampleCases (extract_examples_from_sections U sections))
        \<le> length (sample_input_keys U sections)"
    by (rule earlier_examples_bound)
next
  show "list_all (\<lambda>c. sc_explanation c = [])
        (sampleCases (extract_examples_from_sections U sections))"
    by (rule earlier_examples_explanation)
qed

theorem examples_single_pair_witness:
  "sampleCases (extract_examples_improved
      [(lit ''sample input'', lit '' 1 2 ''), (lit ''sample output'', lit ''3'')])
     = [\<lparr>sc_input = lit ''1 2'', sc_output = lit ''3'', sc_explanation = []\<rparr>]
   \<and> sampleCases (extract_examples_from_sections latin1
      [(lit ''sample input'', lit '' 1 2 ''), (lit ''sample output'', lit ''3'')])
     = [\<lparr>sc_input = lit ''1 2'', sc_output = lit ''3'', sc_explanation = []\<rparr>]"
  using examples_single_pair [of "[(lit ''sample input'', lit '' 1 2 ''), (lit ''sample output'', lit ''3'')]"
      "lit '' 1 2 ''" "lit ''3''" latin1]
  by (simp add: str_defs sample_input_keys_def sample_output_keys_def)

text \<open>
  The earlier extractor makes one case for every key containing \<open>sample input\<close>: with the
  h2 headings \<open>Sample Input\<close>, \<open>Sample Output\<close>, \<open>Sample Input 2\<close> it returns two cases.
\<close>

theorem examples_old_counterexample:
  "map_of [(lit ''sample input'', lit ''1''), (lit ''sample output'', lit ''2''),
           (lit ''sample input 2'', lit ''3'')] (lit ''sample input'') = Some (lit ''1'')
   \<and> map_of [(lit ''sample input'', lit ''1''), (lit ''sample output'', lit ''2''),
           (lit ''sample input 2'', lit ''3'')] (lit ''sample output'') = Some (lit ''2'')
   \<and> strip (lit ''1'') \<noteq> [] \<and> strip (lit ''2'') \<noteq> []
   \<and> sampleCases (extract_examples_from_sections latin1
        [(lit ''sample input'', lit ''1''), (lit ''sample output'', lit ''2''),
         (lit ''sample input 2'', lit ''3'')])
      = [\<lparr>sc_input = lit ''1'', sc_output = lit ''2'', sc_explanation = []\<rparr>,
         \<lparr>sc_input = lit ''3'', sc_output = [], sc_explanation = []\<rparr>]"
  by (simp add: str_defs sample_input_keys_def sample_output_keys_def
      extract_examples_from_sections_def enumerate_eq_zip upt_conv_Cons)

subsection \<open>Difficulty\<close>

lemmas difficulty_defs = keyword_score_def problem_num_def str_isdigit_def py_int_def
  easy_keywords_def medium_keywords_def hard_keywords_def
  easy_indicators_def medium_indicators_def hard_indicators_def
  spec_difficulty_rule_def spec_hard_bonus_def spec_medium_bonus_def

lemma problem_num_improved:
  "problem_num U problem_id = Inr n \<Longrightarrow> \<exists>d. assess_difficulty_improved U sections problem_id = Inr d"
  by (simp add: assess_difficulty_improved_def Let_def split: prod.splits)

lemma problem_num_earlier:
  "problem_num U problem_id = Inr n \<Longrightarrow> \<exists>d. assess_difficulty U sections problem_id = Inr d"
  by (simp add: assess_difficulty_def Let_def)

text \<open>
  C8 (as amended). Unless reading the identifier number raises, the improved classifier
  returns what the rule of the specification gives with the thresholds 3500 and 2000, the
  keyword scores of the lower-cased title, description and constraints, two added to the hard
  score for \<open>10^9\<close> or \<open>10^8\<close> and one added to the medium score for \<open>10^6\<close> or
  \<open>10^5\<close> in the constraints text. The earlier classifier follows the same rule with the
  thresholds 3000 and 1000 and the keyword scores of description and title alone: it has no
  check of magnitudes.
\<close>

theorem difficulty_rule:
  "assess_difficulty_improved U sections problem_id =
     (case problem_num U problem_id of
        Inl e \<Rightarrow> Inl e
      | Inr num \<Rightarrow>
          (let content = uc_lower U (join (lit '' '')
                 [dict_get sections (lit ''title'') [], dict_get sections (lit ''description'') [],
                  dict_get sections (lit ''constraints'') []]);
               constraints_text = dict_get sections (lit ''constraints'') []
           in Inr (spec_difficulty_rule
                (keyword_score easy_keywords content)
                (keyword_score medium_keywords content + spec_medium_bonus constraints_text)
                (keyword_score hard_keywords content + spec_hard_bonus constraints_text)
                num 3500 2000)))
   \<and> assess_difficulty U sections problem_id =
     (case problem_num U problem_id of
        Inl e \<Rightarrow> Inl e
      | Inr num \<Rightarrow>
          (let content = uc_lower U (dict_get sections (lit ''description'') [] @ lit '' ''
                 @ dict_get sections (lit ''title'') [])
           in Inr (spec_difficulty_rule
                (keyword_score easy_indicators content)
                (keyword_score medium_indicators content)
                (keyword_score hard_indicators content)
                num 3000 1000)))"
  by (simp add: assess_difficulty_improved_def assess_difficulty_def spec_difficulty_rule_def
      spec_hard_bonus_def spec_medium_bonus_def Let_def split: sum.splits)

theorem difficulty_rule_witness:
  "assess_difficulty_improved latin1
     [(lit ''title'', lit ''Sort''), (lit ''description'', lit ''Sort the sequence.''),
      (lit ''constraints'', lit ''N < 10^5'')] (lit ''p00001'') = Inr (lit ''Medium'')
   \<and> assess_difficulty latin1
     [(lit ''title'', lit ''Sort''), (lit ''description'', lit ''Sort the sequence.''),
      (lit ''constraints'', lit ''N < 10^5'')] (lit ''p00001'') = Inr (lit ''Medium'')"
  using difficulty_rule [of latin1
     "[(lit ''title'', lit ''Sort''), (lit ''description'', lit ''Sort the sequence.''),
      (lit ''constraints'', lit ''N < 10^5'')]" "lit ''p00001''"]
  by (simp add: str_defs difficulty_defs)

text \<open>
  The earlier classifier on \<open>p00001\<close> with the constraints text \<open>N < 10^9\<close>: the
  magnitude is present, and the result is \<open>Easy\<close>.
\<close>

theorem difficulty_earlier_counterexample:
  "str_in (lit ''10^9'') (dict_get [(lit ''title'', lit ''T''), (lit ''description'', []),
      (lit ''constraints'', lit ''N < 10^9'')] (lit ''constraints'') [])
   \<and> assess_difficulty latin1 [(lit ''title'', lit ''T''), (lit ''description'', []),
      (lit ''constraints'', lit ''N < 10^9'')] (lit ''p00001'') = Inr (lit ''Easy'')"
  by (simp add: str_defs difficulty_defs assess_difficulty_def)

subsection \<open>Ranges\<close>

lemmas regex_defs = range_patterns_def le_sign_def findall_def found_of_def extract_ranges_def

lemma findall_range_patterns_Nil: "pattern \<in> set range_patterns \<Longrightarrow> findall U pattern [] = []"
  by (auto simp: range_patterns_def findall_def)

lemma ranges_loop: "foldl (\<lambda>ranges pattern. ranges @ f pattern) acc ps = acc @ concat (map f ps)"
  by (induction ps arbitrary: acc) simp_all

lemma extract_ranges_eq:
  "extract_ranges U text =
     join (lit ''; '') (concat (map (\<lambda>pattern. map fragment (findall U pattern text)) range_patterns))"
proof -
  define rs where
    "rs = concat (map (\<lambda>pattern. map fragment (findall U pattern text)) range_patterns)"
  have "extract_ranges U text = (if rs \<noteq> [] then join (lit ''; '') rs else [])"
    unfolding rs_def extract_ranges_def ranges_loop Let_def by simp
  also have "\<dots> = join (lit ''; '') rs"
    by (cases rs) simp_all
  finally show ?thesis
    by (simp only: rs_def)
qed

lemma extract_ranges_Nil: "extract_ranges U [] = []"
proof -
  have "concat (map (\<lambda>pattern. map fragment (findall U pattern [])) range_patterns) = []"
    by (simp add: findall_range_patterns_Nil)
  then show ?thesis
    by (simp only: extract_ranges_eq join.simps)
qed

text \<open>
  C7. In both pipelines the ranges string is the matches of the three range patterns, in the
  order of the patterns and with every match of every pattern kept, joined by \<open>; \<close>.
  A match contributes its captured number, or its two captured numbers separated by a space.
\<close>

theorem ranges_all_matches:
  "ic_ranges (build_constraints U sections) =
     join (lit ''; '') (concat (map (\<lambda>pattern. map fragment
        (findall U pattern (dict_get sections (lit ''constraints'') []))) range_patterns))
   \<and> ic_ranges (extract_constraints_from_sections U sections) =
     join (lit ''; '') (concat (map (\<lambda>pattern. map fragment
        (findall U pattern (find_constraints_text U sections))) range_patterns))"
proof
  show "ic_ranges (build_constraints U sections) =
     join (lit ''; '') (concat (map (\<lambda>pattern. map fragment
        (findall U pattern (dict_get sections (lit ''constraints'') []))) range_patterns))"
  proof (cases "dict_get sections (lit ''constraints'') [] = []")
    case True
    then show ?thesis
      using extract_ranges_Nil [of U] by (simp add: build_constraints_def extract_ranges_eq Let_def)
  next
    case False
    then show ?thesis by (simp add: build_constraints_def extract_ranges_eq Let_def)
  qed
next
  show "ic_ranges (extract_constraints_from_sections U sections) =
     join (lit ''; '') (concat (map (\<lambda>pattern. map fragment
        (findall U pattern (find_constraints_text U sections))) range_patterns))"
  proof (cases "find_constraints_text U sections = []")
    case True
    then show ?thesis
      using extract_ranges_Nil [of U]
      by (simp add: extract_constraints_from_sections_def extract_ranges_eq Let_def)
  next
    case False
    then show ?thesis by (simp add: extract_constraints_from_sections_def extract_ranges_eq Let_def)
  qed
qed

text \<open>On \<open>1 \<le> N \<le> 100\<close> the three patterns give \<open>1 100\<close>, \<open>100\<close> and \<open>1\<close>: the bounds
  appear twice.\<close>

theorem ranges_all_matches_witness:
  "ic_ranges (build_constraints latin1
      [(lit ''constraints'', lit ''1 '' @ [8804] @ lit '' N '' @ [8804] @ lit '' 100'')])
     = lit ''1 100; 100; 1''
   \<and> ic_ranges (extract_constraints_from_sections latin1
      [(lit ''constraints'', lit ''1 '' @ [8804] @ lit '' N '' @ [8804] @ lit '' 100'')])
     = lit ''1 100; 100; 1''"
  using ranges_all_matches [of latin1
      "[(lit ''constraints'', lit ''1 '' @ [8804] @ lit '' N '' @ [8804] @ lit '' 100'')]"]
  by (simp add: regex_defs str_defs find_constraints_text_def)

subsection \<open>The confidence score in floating point\<close>

lemmas float_defs = fadd_def fl_def binade_def log2floor.simps pow2_def round_half_even_def

lemma fl_values:
  "fl (5 / 10) = 1 / 2" "fl (1 / 10) = 3602879701896397 / 36028797018963968"
  "fl (2 / 10) = 3602879701896397 / 18014398509481984" "fl 1 = 1"
  "fl (6 / 10) = 5404319552844595 / 9007199254740992"
  "fl (7 / 10) = 3152519739159347 / 4503599627370496"
  "fl (8 / 10) = 3602879701896397 / 4503599627370496"
  "fl (9 / 10) = 8106479329266893 / 9007199254740992"
  "fl (1 / 2) = 1 / 2" "fl (1 / 5) = 3602879701896397 / 18014398509481984"
  "fl (3 / 5) = 5404319552844595 / 9007199254740992"
  "fl (4 / 5) = 3602879701896397 / 4503599627370496"
  by (simp_all add: float_defs Let_def)

lemma confidence_table:
  "confidence_score True False False False = 5404319552844595 / 9007199254740992"
  "confidence_score True False False True = 3152519739159347 / 4503599627370496"
  "confidence_score True False True False = 3602879701896397 / 4503599627370496"
  "confidence_score True False True True = 8106479329266893 / 9007199254740992"
  "confidence_score True True False False = 3602879701896397 / 4503599627370496"
  "confidence_score True True False True = 8106479329266893 / 9007199254740992"
  "confidence_score True True True False = 1"
  "confidence_score True True True True = 1"
  "confidence_score False False False False = 1 / 2"
  "confidence_score False False False True = 5404319552844595 / 9007199254740992"
  "confidence_score False False True False = 3152519739159347 / 4503599627370496"
  "confidence_score False False True True = 7205759403792793 / 9007199254740992"
  "confidence_score False True False False = 3152519739159347 / 4503599627370496"
  "confidence_score False True False True = 7205759403792793 / 9007199254740992"
  "confidence_score False True True False = 8106479329266892 / 9007199254740992"
  "confidence_score False True True True = 9007199254740991 / 9007199254740992"
  unfolding confidence_score_def fl_values Let_def
  by (simp_all add: float_defs Let_def)

lemma confidence_score_title:
  "confidence_score True False False False = fl (6 / 10)"
  "confidence_score True False False True = fl (7 / 10)"
  "confidence_score True False True False = fl (8 / 10)"
  "confidence_score True False True True = fl (9 / 10)"
  "confidence_score True True False False = fl (8 / 10)"
  "confidence_score True True False True = fl (9 / 10)"
  "confidence_score True True True False = fl 1"
  "confidence_score True True True True = fl 1"
  by (simp_all only: confidence_table fl_values)

lemma confidence_score_step:
  "confidence_score False d x c \<le> confidence_score True d x c"
  "confidence_score t False x c \<le> confidence_score t True x c"
  "confidence_score t d False c \<le> confidence_score t d True c"
  "confidence_score t d x False \<le> confidence_score t d x True"
  by (cases t; cases d; cases x; cases c; simp add: confidence_table)+

lemma confidence_score_mono:
  assumes "t \<longrightarrow> t'" "d \<longrightarrow> d'" "x \<longrightarrow> x'" "c \<longrightarrow> c'"
  shows "confidence_score t d x c \<le> confidence_score t' d' x' c'"
proof -
  have "confidence_score t d x c \<le> confidence_score t' d x c"
    using assms(1) confidence_score_step(1) [of d x c] by (cases t; cases t') simp_all
  also have "\<dots> \<le> confidence_score t' d' x c"
    using assms(2) confidence_score_step(2) [of t' x c] by (cases d; cases d') simp_all
  also have "\<dots> \<le> confidence_score t' d' x' c"
    using assms(3) confidence_score_step(3) [of t' d' c] by (cases x; cases x') simp_all
  also have "\<dots> \<le> confidence_score t' d' x' c'"
    using assms(4) confidence_score_step(4) [of t' d' x'] by (cases c; cases c') simp_all
  finally show ?thesis .
qed

lemma confidence_score_range:
  "0 \<le> confidence_score t d x c \<and> confidence_score t d x c \<le> 1"
  by (cases t; cases d; cases x; cases c;
      simp add: confidence_table fl_values)

lemma confidence_score_decimal:
  "confidence_score True d x c =
     fl (min 1 (5 / 10 + 1 / 10 + (if d then 2 / 10 else 0) + (if x then 2 / 10 else 0)
                 + (if c then 1 / 10 else 0)))"
  by (cases d; cases x; cases c; simp add: confidence_table fl_values)

subsection \<open>The structure of the two pipelines\<close>

lemma error_line_names_path: "str_in file_path (error_line file_path e)"
  unfolding error_line_def by (rule str_in_append)

lemma improved_Some:
  "extract_problem_improved E file_path = Inr (Some r, out) \<longleftrightarrow>
     (\<exists>html_content sections difficulty_text.
        read_file E file_path = Inr html_content \<and> strip html_content \<noteq> []
        \<and> extract_sections_from_html_improved E html_content = Inr sections
        \<and> \<not> (dict_get sections (lit ''title'') [] = []
              \<and> dict_get sections (lit ''description'') [] = [])
        \<and> assess_difficulty_improved (tables E)
              (with_fallback_title sections (path_stem E file_path)) (path_stem E file_path)
            = Inr difficulty_text
        \<and> r = assemble_improved E file_path (path_stem E file_path)
                (with_fallback_title sections (path_stem E file_path)) difficulty_text
        \<and> out = [])"
  unfolding extract_problem_improved_def extract_problem_improved_body_def except_handler_def
    Let_def
  by (auto split: sum.splits if_splits option.splits)

lemma earlier_Some:
  "extract_problem_from_html_file E file_path = Inr (Some r, out) \<longleftrightarrow>
     (\<exists>html_content sections difficulty_text.
        read_file E file_path = Inr html_content \<and> strip html_content \<noteq> []
        \<and> extract_sections_from_html E html_content = Inr sections
        \<and> dict_get sections (lit ''title'') [] \<noteq> []
        \<and> assess_difficulty (tables E) sections (path_stem E file_path) = Inr difficulty_text
        \<and> r = assemble_earlier E file_path (path_stem E file_path) sections difficulty_text
        \<and> out = [])"
  unfolding extract_problem_from_html_file_def extract_problem_from_html_file_body_def
    except_handler_def Let_def
  by (auto split: sum.splits if_splits option.splits)

lemma fallback_title_nonempty:
  "dict_get (with_fallback_title sections problem_id) (lit ''title'') dflt \<noteq> []"
proof (cases "dict_get sections (lit ''title'') [] = []")
  case True
  then show ?thesis
    by (simp add: with_fallback_title_def dict_get_dict_set lit_def)
next
  case False
  then show ?thesis
    by (auto simp: with_fallback_title_def dict_get_def split: option.splits)
qed

lemma fallback_title_other:
  "k \<noteq> lit ''title'' \<Longrightarrow>
     dict_get (with_fallback_title sections problem_id) k dflt = dict_get sections k dflt"
  by (simp add: with_fallback_title_def dict_get_dict_set)

lemma improved_confidence:
  assumes "extract_problem_improved E file_path = Inr (Some r, out)"
  shows "title (basicInfo r) \<noteq> []"
    and "confidence (metadata r) =
           confidence_score True (length (description (basicInfo r)) > 50)
             (sampleCases (examples r) \<noteq> []) (ic_description (constraints r) \<noteq> [])"
proof -
  from assms obtain sections difficulty_text where
    r: "r = assemble_improved E file_path (path_stem E file_path)
              (with_fallback_title sections (path_stem E file_path)) difficulty_text"
    unfolding improved_Some by blast
  show "title (basicInfo r) \<noteq> []"
    by (simp add: r assemble_improved_def Let_def fallback_title_nonempty)
  have "dict_get s k [] \<noteq> [] \<and> length (dict_get s k []) > 50 \<longleftrightarrow> length (dict_get s k []) > 50"
    for s k by auto
  then show "confidence (metadata r) =
           confidence_score True (length (description (basicInfo r)) > 50)
             (sampleCases (examples r) \<noteq> []) (ic_description (constraints r) \<noteq> [])"
    by (simp add: r assemble_improved_def Let_def compute_confidence_def build_constraints_def
        fallback_title_nonempty)
qed

lemma standard_sections_loop_other:
  "k \<notin> set (map fst ms) \<Longrightarrow>
     dict_get (foldl (\<lambda>sections (section_key, possible_names).
                 case f possible_names of
                   None \<Rightarrow> sections
                 | Some text \<Rightarrow> dict_set sections section_key text) S ms) k dflt
       = dict_get S k dflt"
proof (induction ms arbitrary: S)
  case Nil
  then show ?case by simp
next
  case (Cons m ms)
  obtain section_key possible_names where m: "m = (section_key, possible_names)"
    by (cases m)
  from Cons.prems have k: "k \<noteq> section_key" and rest: "k \<notin> set (map fst ms)"
    by (simp_all add: m)
  show ?case
  proof (cases "f possible_names")
    case None
    then show ?thesis
      using Cons.IH [OF rest] by (simp add: m)
  next
    case (Some found_text)
    then show ?thesis
      using Cons.IH [OF rest, of "dict_set S section_key found_text"] k
      by (simp add: m dict_get_dict_set)
  qed
qed

lemma standard_keys:
  "lit ''title'' \<notin> set (map fst section_mappings)"
  "lit ''description'' \<notin> set (map fst section_mappings)"
  by (simp_all add: section_mappings_def lit_def)

lemma add_standard_sections_other:
  "dict_get (add_standard_sections U soup S) (lit ''title'') dflt = dict_get S (lit ''title'') dflt"
  "dict_get (add_standard_sections U soup S) (lit ''description'') dflt
     = dict_get S (lit ''description'') dflt"
  unfolding add_standard_sections_def
  by (rule standard_sections_loop_other, rule standard_keys)+

lemma improved_sections:
  assumes "BeautifulSoup E html_content = Inr soup"
    and "extract_sections_from_html_improved E html_content = Inr sections"
  shows "extract_title_flexible E soup = Inr (dict_get sections (lit ''title'') [])"
    and "dict_get sections (lit ''description'') []
           = join (lit '' '') (description_parts_improved E soup)"
proof -
  from assms obtain title_text where
    t: "extract_title_flexible E soup = Inr title_text"
    and s: "sections = add_standard_sections (tables E) soup
              (dict_set (if title_text \<noteq> [] then [(lit ''title'', title_text)] else [])
                 (lit ''description'') (join (lit '' '') (description_parts_improved E soup)))"
    by (auto simp: extract_sections_from_html_improved_def Let_def split: sum.splits)
  have ne: "lit ''title'' \<noteq> lit ''description''"
    by (simp add: lit_def)
  have one: "dict_get [(lit ''title'', title_text)] (lit ''title'') [] = title_text"
    and none: "dict_get [] (lit ''title'') [] = []"
    by (simp_all add: dict_get_def)
  show "extract_title_flexible E soup = Inr (dict_get sections (lit ''title'') [])"
    using ne by (simp add: t s add_standard_sections_other dict_get_dict_set one none)
  show "dict_get sections (lit ''description'') []
           = join (lit '' '') (description_parts_improved E soup)"
    by (simp add: s add_standard_sections_other dict_get_dict_set)
qed

lemma h2_sections_title:
  "h2_sections E h2_tags S = Inr S' \<Longrightarrow>
   list_all (\<lambda>h2. case clean_html_text E (tg_str h2) of
                      Inl e \<Rightarrow> True
                    | Inr name \<Rightarrow> uc_lower (tables E) name \<noteq> lit ''title'') h2_tags \<Longrightarrow>
   dict_get S' (lit ''title'') dflt = dict_get S (lit ''title'') dflt"
proof (induction h2_tags arbitrary: S)
  case Nil
  then show ?case by simp
next
  case (Cons h2 h2_tags)
  from Cons.prems(1) obtain name where
    name: "clean_html_text E (tg_str h2) = Inr name"
    by (cases "clean_html_text E (tg_str h2)") simp_all
  define S1 where
    "S1 = dict_set (dict_set S (uc_lower (tables E) name) []) (uc_lower (tables E) name)
            (join (lit '' '') (h2_walk (tables E) (tg_next_siblings h2)))"
  from Cons.prems(1) have rest: "h2_sections E h2_tags S1 = Inr S'"
    by (simp add: name S1_def Let_def)
  from Cons.prems(2) have other: "uc_lower (tables E) name \<noteq> lit ''title''"
    and tail: "list_all (\<lambda>h2. case clean_html_text E (tg_str h2) of
                      Inl e \<Rightarrow> True
                    | Inr name \<Rightarrow> uc_lower (tables E) name \<noteq> lit ''title'') h2_tags"
    by (simp_all add: name)
  have "dict_get S' (lit ''title'') dflt = dict_get S1 (lit ''title'') dflt"
    by (rule Cons.IH [OF rest tail])
  also have "\<dots> = dict_get S (lit ''title'') dflt"
    using other by (simp add: S1_def dict_get_dict_set)
  finally show ?case .
qed

lemma earlier_sections_title:
  assumes "BeautifulSoup E html_content = Inr soup"
    and "find_h1 soup = Some h1"
    and "clean_html_text E (tg_str h1) = Inr heading_text"
    and "list_all (\<lambda>h2. case clean_html_text E (tg_str h2) of
                      Inl e \<Rightarrow> True
                    | Inr name \<Rightarrow> uc_lower (tables E) name \<noteq> lit ''title'') (find_all_h2 soup)"
    and "extract_sections_from_html E html_content = Inr sections"
  shows "dict_get sections (lit ''title'') dflt = heading_text"
proof -
  have ne: "lit ''title'' \<noteq> lit ''description''"
    by (simp add: lit_def)
  define d where
    "d = join (lit '' '') (h2_walk (tables E) (tg_next_siblings h1))"
  from assms(1,2,3,5) have
    "h2_sections E (find_all_h2 soup)
       (dict_set [(lit ''title'', heading_text)] (lit ''description'') d) = Inr sections"
    by (simp add: extract_sections_from_html_def Let_def d_def)
  from h2_sections_title [OF this assms(4)]
  have "dict_get sections (lit ''title'') dflt
          = dict_get (dict_set [(lit ''title'', heading_text)] (lit ''description'') d)
              (lit ''title'') dflt" .
  also have "\<dots> = heading_text"
    using ne by (simp add: dict_get_def)
  finally show ?thesis .
qed

subsection \<open>The example documents\<close>

lemma demo_tables: "tables demo_env = latin1"
  by (simp add: demo_env_def)

lemma demo_read_add: "read_file demo_env (lit ''p00001.html'') = Inr add_html"
  by (simp add: demo_env_def demo_files_def lit_def)

lemma demo_read_sq: "read_file demo_env (112 # 178 # lit ''.html'') = Inr add_html"
  by (simp add: demo_env_def demo_files_def lit_def)

lemma demo_stem_sq: "path_stem demo_env (112 # 178 # lit ''.html'') = [112, 178]"
  by (simp add: demo_env_def lit_def)

lemma add_html_nonblank: "strip add_html \<noteq> []"
  by (simp add: add_html_def range_text_def str_defs)

lemma demo_parse_add: "BeautifulSoup demo_env add_html = Inr add_soup"
  by (simp add: demo_env_def)

lemma demo_clean_add_h1: "clean_html_text demo_env (tg_str add_h1) = Inr (lit ''Add Two Numbers'')"
  by (simp add: clean_html_text_def demo_env_def add_h1_def splitlines_def split_def
      islinebreak_def str_defs)

lemma demo_title_add: "extract_title_flexible demo_env add_soup = Inr (lit ''Add Two Numbers'')"
proof -
  have "find_h1 add_soup = Some add_h1" by (simp add: add_soup_def)
  moreover have "strip (tg_get_text add_h1) \<noteq> []" by (simp add: add_h1_def str_defs)
  ultimately show ?thesis
    by (simp add: extract_title_flexible_def demo_clean_add_h1)
qed

lemma demo_direct_add: "direct_description_parts add_soup = [range_text]"
  by (simp add: direct_description_parts_def add_soup_def add_h2_def range_text_def str_defs)

lemma demo_comments_add: "extract_from_comments demo_env add_soup = []"
  by (simp add: extract_from_comments_def add_soup_def List.map_filter_def)

lemma demo_description_add: "description_parts_improved demo_env add_soup = [range_text]"
  by (simp add: description_parts_improved_def demo_direct_add demo_comments_add
      comment_description_parts_def statement_description_parts_def Let_def)
     (simp add: add_soup_def range_text_def lit_def)

lemma demo_walk_add: "header_walk latin1 (tg_next_siblings add_h2) = [range_text]"
  by (simp add: add_h2_def element_node_def is_heading_def range_text_def str_defs)

lemma demo_std_add:
  "add_standard_sections latin1 add_soup
     [(lit ''title'', lit ''Add Two Numbers''), (lit ''description'', range_text)] = add_sections"
  by (simp add: add_standard_sections_def section_mappings_def find_section_text_def
      add_soup_def demo_walk_add add_sections_def lit_def)

lemma demo_sections_add: "extract_sections_from_html_improved demo_env add_html = Inr add_sections"
  by (simp add: extract_sections_from_html_improved_def demo_parse_add demo_title_add
      demo_description_add demo_tables Let_def)
     (simp add: demo_std_add [symmetric] lit_def)

lemma demo_difficulty_add:
  "assess_difficulty_improved latin1 add_sections (lit ''p00001'') = Inr (lit ''Easy'')"
  by (simp add: assess_difficulty_improved_def add_sections_def range_text_def
      difficulty_defs str_defs)

lemma demo_category_add:
  "categorize_problem_improved latin1 add_sections = lit ''Math & Logic''"
  by (simp add: categorize_problem_improved_def best_category_def categories_improved_def
      add_sections_def range_text_def keyword_score_def str_defs)

lemma demo_tags_add:
  "generate_tags tag_keywords_improved
     (uc_lower latin1 (dict_get add_sections (lit ''description'') [] @ lit '' ''
        @ dict_get add_sections (lit ''title'') [])) = [lit ''math'']"
  by (simp add: generate_tags_def tag_keywords_improved_def
      add_sections_def range_text_def str_defs)

lemma demo_read_blank: "read_file demo_env (lit ''p00005.html'') = Inr [32, 10, 9, 32]"
  by (simp add: demo_env_def demo_files_def lit_def)

lemma demo_stem_add: "path_stem demo_env (lit ''p00001.html'') = lit ''p00001''"
  by (simp add: demo_env_def lit_def)

lemma demo_num_add: "problem_num latin1 (lit ''p00001'') = Inr 1"
  by (simp add: difficulty_defs str_defs)

lemma demo_clean_add_h2: "clean_html_text demo_env (tg_str add_h2) = Inr (lit ''Constraints'')"
  by (simp add: clean_html_text_def demo_env_def add_h2_def splitlines_def split_def
      islinebreak_def str_defs)

lemma demo_h2_walk_add_h1: "h2_walk latin1 (tg_next_siblings add_h1) = []"
  by (simp add: add_h1_def element_node_def is_heading_def str_defs)

lemma demo_h2_walk_add_h2: "h2_walk latin1 (tg_next_siblings add_h2) = [range_text]"
  by (simp add: add_h2_def element_node_def is_heading_def range_text_def str_defs)

lemma demo_sections_add_earlier:
  "extract_sections_from_html demo_env add_html = Inr add_sections_earlier"
proof -
  have a: "find_h1 add_soup = Some add_h1" "find_all_h2 add_soup = [add_h2]"
    by (simp_all add: add_soup_def)
  have b: "uc_lower latin1 (lit ''Constraints'') = lit ''constraints''"
    by (simp add: str_defs)
  show ?thesis
    by (simp add: extract_sections_from_html_def demo_parse_add a demo_clean_add_h1
        demo_clean_add_h2 demo_tables demo_h2_walk_add_h1 demo_h2_walk_add_h2 b Let_def)
       (simp add: add_sections_earlier_def lit_def)
qed

lemma demo_read_sum: "read_file demo_env (lit ''p00002.html'') = Inr sum_html"
  by (simp add: demo_env_def demo_files_def lit_def)

lemma sum_html_nonblank: "strip sum_html \<noteq> []"
  by (simp add: sum_html_def str_defs)

lemma demo_parse_sum: "BeautifulSoup demo_env sum_html = Inr sum_soup"
  by (simp add: demo_env_def)
     (simp add: sum_html_def add_html_def lit_def)

lemma demo_sections_sum_earlier:
  "extract_sections_from_html demo_env sum_html
     = Inr [(lit ''description'', lit ''Compute the sum.'')]"
proof -
  have a: "find_h1 sum_soup = None" "find_all_h2 sum_soup = []"
    by (simp_all add: sum_soup_def)
  have b: "h2_walk latin1 (body_chain sum_soup) = [lit ''Compute the sum.'']"
    by (simp add: sum_soup_def element_node_def is_heading_def str_defs)
  show ?thesis
    by (simp add: extract_sections_from_html_def demo_parse_sum a b demo_tables Let_def)
qed

lemma demo_difficulty_sq:
  "assess_difficulty_improved latin1 S [112, 178]
     = Inl (ValueError (lit ''invalid literal for int() with base 10: '' @ [39, 178, 39]))"
  "assess_difficulty latin1 S [112, 178]
     = Inl (ValueError (lit ''invalid literal for int() with base 10: '' @ [39, 178, 39]))"
  by (simp_all add: assess_difficulty_improved_def assess_difficulty_def problem_num_def
      str_isdigit_def py_int_def latin1_def Let_def)

lemma add_sections_title: "dict_get add_sections (lit ''title'') dflt = lit ''Add Two Numbers''"
  by (simp add: add_sections_def str_defs)

lemma demo_improved_add:
  "extract_problem_improved demo_env (lit ''p00001.html'')
     = Inr (Some (assemble_improved demo_env (lit ''p00001.html'') (lit ''p00001'') add_sections
                (lit ''Easy'')), [])"
proof -
  have t: "dict_get add_sections (lit ''title'') [] \<noteq> []"
    by (simp add: add_sections_title) (simp add: lit_def)
  then have "with_fallback_title add_sections (lit ''p00001'') = add_sections"
    by (simp add: with_fallback_title_def)
  with t show ?thesis
    by (simp add: extract_problem_improved_def extract_problem_improved_body_def demo_read_add
        add_html_nonblank demo_stem_add demo_sections_add demo_tables demo_difficulty_add Let_def)
qed

lemma demo_improved_add_fields:
  "title (basicInfo (assemble_improved demo_env (lit ''p00001.html'') (lit ''p00001'')
      add_sections (lit ''Easy''))) = lit ''Add Two Numbers''"
  "description (basicInfo (assemble_improved demo_env (lit ''p00001.html'') (lit ''p00001'')
      add_sections (lit ''Easy''))) = range_text"
  "sampleCases (examples (assemble_improved demo_env (lit ''p00001.html'') (lit ''p00001'')
      add_sections (lit ''Easy''))) = []"
  "ic_description (constraints (assemble_improved demo_env (lit ''p00001.html'') (lit ''p00001'')
      add_sections (lit ''Easy''))) = range_text"
  by (simp_all add: assemble_improved_def Let_def add_sections_title build_constraints_def
      extract_examples_improved_def)
     (simp_all add: add_sections_def str_defs)

lemma demo_difficulty_add_earlier:
  "assess_difficulty latin1 add_sections_earlier (lit ''p00001'') = Inr (lit ''Easy'')"
  by (simp add: assess_difficulty_def add_sections_earlier_def range_text_def
      difficulty_defs str_defs)

lemma demo_earlier_add:
  "extract_problem_from_html_file demo_env (lit ''p00001.html'')
     = Inr (Some (assemble_earlier demo_env (lit ''p00001.html'') (lit ''p00001'')
                add_sections_earlier (lit ''Easy'')), [])"
proof -
  have t: "dict_get add_sections_earlier (lit ''title'') [] \<noteq> []"
    by (simp add: add_sections_earlier_def str_defs)
  then show ?thesis
    by (simp add: extract_problem_from_html_file_def extract_problem_from_html_file_body_def
        demo_read_add add_html_nonblank demo_stem_add demo_sections_add_earlier demo_tables
        demo_difficulty_add_earlier Let_def)
qed

lemma demo_read_prefix: "read_file demo_env (lit ''p00003.html'') = Inr prefix_html"
  by (simp add: demo_env_def demo_files_def lit_def)

lemma demo_stem_prefix: "path_stem demo_env (lit ''p00003.html'') = lit ''p00003''"
  by (simp add: demo_env_def lit_def)

lemma prefix_html_nonblank: "strip prefix_html \<noteq> []"
  by (simp add: prefix_html_def str_defs)

lemma demo_parse_prefix: "BeautifulSoup demo_env prefix_html = Inr prefix_soup"
  by (simp add: demo_env_def)
     (simp add: prefix_html_def sum_html_def add_html_def lit_def)

lemma demo_clean_prefix_h1:
  "clean_html_text demo_env (tg_str prefix_h1) = Inr (lit ''Problem A: Sum'')"
  by (simp add: clean_html_text_def demo_env_def prefix_h1_def splitlines_def split_def
      islinebreak_def str_defs)

lemma demo_sections_prefix_earlier:
  "extract_sections_from_html demo_env prefix_html = Inr prefix_sections_earlier"
proof -
  have a: "find_h1 prefix_soup = Some prefix_h1" "find_all_h2 prefix_soup = []"
    by (simp_all add: prefix_soup_def)
  have b: "h2_walk latin1 (tg_next_siblings prefix_h1) = []"
    by (simp add: prefix_h1_def)
  show ?thesis
    by (simp add: extract_sections_from_html_def demo_parse_prefix a b demo_clean_prefix_h1
        demo_tables Let_def)
       (simp add: prefix_sections_earlier_def lit_def)
qed

lemma demo_difficulty_prefix_earlier:
  "assess_difficulty latin1 prefix_sections_earlier (lit ''p00003'') = Inr (lit ''Easy'')"
  by (simp add: assess_difficulty_def prefix_sections_earlier_def difficulty_defs str_defs)

lemma demo_parse_comment: "BeautifulSoup demo_env comment_html = Inr comment_soup"
  by (simp add: demo_env_def)
     (simp add: comment_html_def prefix_html_def sum_html_def add_html_def lit_def)

lemma demo_clean_comment:
  "clean_html_text demo_env comment_markup = Inr comment_statement"
proof -
  have "soup_text demo_env comment_markup = Inr (lit '' This comment holds the real statement. '')"
    by (simp add: demo_env_def) (simp add: comment_markup_def lit_def)
  moreover have "comment_markup \<noteq> []"
    by (simp add: comment_markup_def lit_def)
  ultimately show ?thesis
    by (simp add: clean_html_text_def comment_statement_def splitlines_def split_def
        islinebreak_def str_defs)
qed

lemma demo_comments_comment: "extract_from_comments demo_env comment_soup = comment_statement"
proof -
  have "soup_str demo_env comment_markup = Inr comment_markup"
    by (simp add: demo_env_def)
  moreover have "comment_statement \<noteq> []" "length comment_statement > 20"
    by (simp_all add: comment_statement_def lit_def)
  moreover have "comments comment_soup = [comment_markup]"
    by (simp add: comment_soup_def)
  ultimately show ?thesis
    by (simp add: extract_from_comments_def comment_text_def demo_clean_comment
        List.map_filter_def)
qed

lemma demo_direct_comment: "direct_description_parts comment_soup = [lit ''Short text.'']"
  by (simp add: direct_description_parts_def comment_soup_def str_defs)

lemma demo_statement_comment: "statement_description_parts comment_soup = []"
  by (simp add: statement_description_parts_def comment_soup_def)

lemma demo_title_comment: "extract_title_flexible demo_env comment_soup = Inr comment_statement"
proof -
  have a: "find_h1 comment_soup = None" "find_problem_statement comment_soup = None"
    "find_all_headings comment_soup = [comment_h2]"
    by (simp_all add: comment_soup_def)
  have b: "title_from_headings comment_soup = None"
    by (simp add: title_from_headings_def a comment_h2_def title_stoplist_def str_defs)
  have c: "title_from_comments demo_env comment_soup = Some comment_statement"
    by (simp add: title_from_comments_def demo_comments_comment Let_def)
       (simp add: comment_statement_def split_def str_defs)
  show ?thesis
    by (simp add: extract_title_flexible_def a title_from_problem_statement_def b c)
qed

lemma demo_walk_comment: "header_walk latin1 (tg_next_siblings comment_h2) = [lit ''Short text.'']"
  by (simp add: comment_h2_def element_node_def string_node_def is_heading_def
      comment_markup_def str_defs)

lemma demo_std_comment:
  "add_standard_sections latin1 comment_soup
     [(lit ''title'', comment_statement),
      (lit ''description'', lit ''Short text. '' @ comment_statement)] = comment_sections"
  by (simp add: add_standard_sections_def section_mappings_def find_section_text_def
      comment_soup_def demo_walk_comment comment_sections_def lit_def)

lemma demo_sections_comment:
  "extract_sections_from_html_improved demo_env comment_html = Inr comment_sections"
proof -
  have "comment_statement \<noteq> []"
    by (simp add: comment_statement_def lit_def)
  moreover have "description_parts_improved demo_env comment_soup
                   = [lit ''Short text.'', comment_statement]"
    using calculation
    by (simp add: description_parts_improved_def demo_direct_comment demo_comments_comment
        comment_description_parts_def demo_statement_comment Let_def)
       (simp add: lit_def)
  ultimately show ?thesis
    by (simp add: extract_sections_from_html_improved_def demo_parse_comment demo_title_comment
        demo_tables Let_def)
       (simp add: demo_std_comment [symmetric] lit_def)
qed

subsection \<open>The exception handler, blank documents and rejection\<close>

lemma handler_returns_absent:
  "print_line E (error_line file_path e) = None \<Longrightarrow>
     (extract_problem_improved_body E file_path = Inl e
        \<longrightarrow> extract_problem_improved E file_path = Inr (None, [error_line file_path e]))
     \<and> (extract_problem_from_html_file_body E file_path = Inl e
        \<longrightarrow> extract_problem_from_html_file E file_path = Inr (None, [error_line file_path e]))"
  by (simp add: extract_problem_improved_def extract_problem_from_html_file_def
      except_handler_def)

lemma handler_print_raises:
  "print_line E (error_line file_path e) = Some print_error \<Longrightarrow>
     (extract_problem_improved_body E file_path = Inl e
        \<longrightarrow> extract_problem_improved E file_path = Inl print_error)
     \<and> (extract_problem_from_html_file_body E file_path = Inl e
        \<longrightarrow> extract_problem_from_html_file E file_path = Inl print_error)"
  by (simp add: extract_problem_improved_def extract_problem_from_html_file_def
      except_handler_def)

lemma demo_missing_file:
  "extract_problem_improved demo_env (lit ''p00006.html'')
     = Inr (None, [lit ''Error processing p00006.html: ''
                     @ lit ''[Errno 2] No such file or directory: '' @ [39]
                     @ lit ''p00006.html'' @ [39]])"
proof -
  let ?e = "OSError (lit ''[Errno 2] No such file or directory: '' @ [39]
                       @ lit ''p00006.html'' @ [39])"
  have "read_file demo_env (lit ''p00006.html'') = Inl ?e"
    by (simp add: demo_env_def demo_files_def lit_def)
  then have "extract_problem_improved_body demo_env (lit ''p00006.html'') = Inl ?e"
    by (simp add: extract_problem_improved_body_def)
  moreover have "print_line demo_env (error_line (lit ''p00006.html'') ?e) = None"
    by (simp add: demo_env_def ascii_print_def error_line_def lit_def)
  ultimately show ?thesis
    using handler_returns_absent [of demo_env "lit ''p00006.html''" ?e]
    by (simp add: error_line_def lit_def)
qed

text \<open>
  C1 (a defect of the code). Both entry points catch every exception of the body, but the
  handler prints its line before it returns \<open>None\<close>, and that \<open>print\<close> can raise. Here
  the standard output has the ASCII encoding and the file is named \<open>p\<close>, superscript two,
  \<open>.html\<close>: \<open>isdigit\<close> accepts the superscript two and \<open>int\<close> raises \<open>ValueError\<close>
  inside the \<open>try\<close>; the line of the handler contains the file name, so \<open>print\<close> raises
  \<open>UnicodeEncodeError\<close>, and this exception leaves both entry points.
\<close>

theorem handler_print_escapes:
  "extract_problem_improved_body demo_env ([112, 178] @ lit ''.html'')
     = Inl (ValueError (lit ''invalid literal for int() with base 10: '' @ [39, 178, 39]))
   \<and> extract_problem_from_html_file_body demo_env ([112, 178] @ lit ''.html'')
     = Inl (ValueError (lit ''invalid literal for int() with base 10: '' @ [39, 178, 39]))
   \<and> extract_problem_improved demo_env ([112, 178] @ lit ''.html'')
     = Inl (UnicodeEncodeError (lit ''ordinal not in range(128)''))
   \<and> extract_problem_from_html_file demo_env ([112, 178] @ lit ''.html'')
     = Inl (UnicodeEncodeError (lit ''ordinal not in range(128)''))"
proof -
  let ?p = "[112, 178] @ lit ''.html''"
  let ?e = "ValueError (lit ''invalid literal for int() with base 10: '' @ [39, 178, 39])"
  have t: "dict_get add_sections (lit ''title'') [] \<noteq> []"
    "dict_get add_sections_earlier (lit ''title'') [] \<noteq> []"
    by (simp_all add: add_sections_def add_sections_earlier_def str_defs)
  have a: "extract_problem_improved_body demo_env ?p = Inl ?e"
    using t
    by (simp add: extract_problem_improved_body_def demo_read_sq add_html_nonblank
        demo_stem_sq demo_sections_add demo_tables demo_difficulty_sq Let_def)
  have b: "extract_problem_from_html_file_body demo_env ?p = Inl ?e"
    using t
    by (simp add: extract_problem_from_html_file_body_def demo_read_sq add_html_nonblank
        demo_stem_sq demo_sections_add_earlier demo_tables demo_difficulty_sq Let_def)
  have c: "print_line demo_env (error_line ?p ?e)
             = Some (UnicodeEncodeError (lit ''ordinal not in range(128)''))"
    by (simp add: demo_env_def ascii_print_def error_line_def lit_def)
  show ?thesis
    using handler_print_raises [OF c] a b by simp
qed

text \<open>
  C2. A document that is empty or consists of whitespace gives \<open>None\<close> in both
  pipelines, and nothing is printed.
\<close>

theorem blank_document_absent:
  "read_file E file_path = Inr html_content \<and> strip html_content = []
   \<longrightarrow> extract_problem_improved E file_path = Inr (None, [])
       \<and> extract_problem_from_html_file E file_path = Inr (None, [])"
  by (simp add: extract_problem_improved_def extract_problem_improved_body_def
      extract_problem_from_html_file_def extract_problem_from_html_file_body_def)

text \<open>
  The file of two spaces, a line feed and a tab.
\<close>

theorem blank_document_absent_witness:
  "read_file demo_env (lit ''p00005.html'') = Inr [32, 10, 9, 32]
   \<and> strip [32, 10, 9, 32] = []
   \<and> extract_problem_improved demo_env (lit ''p00005.html'') = Inr (None, [])
   \<and> extract_problem_from_html_file demo_env (lit ''p00005.html'') = Inr (None, [])"
proof -
  have "strip [32, 10, 9, 32] = []"
    by (simp add: str_defs)
  then show ?thesis
    using blank_document_absent [of demo_env "lit ''p00005.html''" "[32, 10, 9, 32]"]
      demo_read_blank
    by simp
qed

text \<open>
  C3 (as amended). For a readable document that is not blank and whose sections are
  extracted: the improved pipeline returns \<open>None\<close> when the section map has neither a
  title nor a description, and a record when it has one of them and the identifier number
  can be read. The earlier pipeline returns \<open>None\<close> when the section map has no title,
  whatever the description, and a record when it has a title and the number can be read.
\<close>

theorem rejection_rule:
  "(read_file E file_path = Inr html_content \<and> strip html_content \<noteq> []
    \<and> extract_sections_from_html_improved E html_content = Inr sections
    \<longrightarrow> (dict_get sections (lit ''title'') [] = [] \<and> dict_get sections (lit ''description'') [] = []
          \<longrightarrow> extract_problem_improved E file_path = Inr (None, []))
        \<and> (\<not> (dict_get sections (lit ''title'') [] = []
                \<and> dict_get sections (lit ''description'') [] = [])
            \<and> problem_num (tables E) (path_stem E file_path) = Inr n
          \<longrightarrow> (\<exists>r. extract_problem_improved E file_path = Inr (Some r, []))))
   \<and> (read_file E file_path = Inr html_content \<and> strip html_content \<noteq> []
      \<and> extract_sections_from_html E html_content = Inr earlier_sections
      \<longrightarrow> (dict_get earlier_sections (lit ''title'') [] = []
            \<longrightarrow> extract_problem_from_html_file E file_path = Inr (None, []))
          \<and> (dict_get earlier_sections (lit ''title'') [] \<noteq> []
              \<and> problem_num (tables E) (path_stem E file_path) = Inr n
            \<longrightarrow> (\<exists>r. extract_problem_from_html_file E file_path = Inr (Some r, []))))"
proof (intro conjI impI)
  assume h: "read_file E file_path = Inr html_content \<and> strip html_content \<noteq> []
    \<and> extract_sections_from_html_improved E html_content = Inr sections"
  {
    assume "dict_get sections (lit ''title'') [] = [] \<and> dict_get sections (lit ''description'') [] = []"
    with h show "extract_problem_improved E file_path = Inr (None, [])"
      by (simp add: extract_problem_improved_def extract_problem_improved_body_def)
  }
  assume g: "\<not> (dict_get sections (lit ''title'') [] = []
                \<and> dict_get sections (lit ''description'') [] = [])
            \<and> problem_num (tables E) (path_stem E file_path) = Inr n"
  then obtain d where
    d: "assess_difficulty_improved (tables E) (with_fallback_title sections (path_stem E file_path))
          (path_stem E file_path) = Inr d"
    using problem_num_improved by blast
  with h g show "\<exists>r. extract_problem_improved E file_path = Inr (Some r, [])"
    by (simp add: extract_problem_improved_def extract_problem_improved_body_def Let_def)
next
  assume h: "read_file E file_path = Inr html_content \<and> strip html_content \<noteq> []
      \<and> extract_sections_from_html E html_content = Inr earlier_sections"
  {
    assume "dict_get earlier_sections (lit ''title'') [] = []"
    with h show "extract_problem_from_html_file E file_path = Inr (None, [])"
      by (simp add: extract_problem_from_html_file_def extract_problem_from_html_file_body_def)
  }
  assume g: "dict_get earlier_sections (lit ''title'') [] \<noteq> []
              \<and> problem_num (tables E) (path_stem E file_path) = Inr n"
  then obtain d where
    d: "assess_difficulty (tables E) earlier_sections (path_stem E file_path) = Inr d"
    using problem_num_earlier by blast
  with h g show "\<exists>r. extract_problem_from_html_file E file_path = Inr (Some r, [])"
    by (simp add: extract_problem_from_html_file_def extract_problem_from_html_file_body_def
        Let_def)
qed

text \<open>
  The document \<open>Add Two Numbers\<close> gives a record in both pipelines.
\<close>

theorem rejection_rule_witness:
  "(\<exists>r. extract_problem_improved demo_env (lit ''p00001.html'') = Inr (Some r, []))
   \<and> (\<exists>r. extract_problem_from_html_file demo_env (lit ''p00001.html'') = Inr (Some r, []))"
proof -
  have "dict_get add_sections (lit ''title'') [] \<noteq> []"
    "dict_get add_sections_earlier (lit ''title'') [] \<noteq> []"
    by (simp_all add: add_sections_def add_sections_earlier_def str_defs)
  then show ?thesis
    using rejection_rule [of demo_env "lit ''p00001.html''" add_html add_sections 1
        add_sections_earlier]
      demo_read_add add_html_nonblank demo_sections_add demo_sections_add_earlier
      demo_stem_add demo_num_add demo_tables
    by simp
qed

text \<open>
  The document with a text and no heading: the earlier pipeline recovers the description
  \<open>Compute the sum.\<close> and returns \<open>None\<close>.
\<close>

theorem rejection_earlier_counterexample:
  "read_file demo_env (lit ''p00002.html'') = Inr sum_html
   \<and> strip sum_html \<noteq> []
   \<and> extract_sections_from_html demo_env sum_html
       = Inr [(lit ''description'', lit ''Compute the sum.'')]
   \<and> dict_get [(lit ''description'', lit ''Compute the sum.'')] (lit ''description'') [] \<noteq> []
   \<and> extract_problem_from_html_file demo_env (lit ''p00002.html'') = Inr (None, [])"
proof -
  have "dict_get [(lit ''description'', lit ''Compute the sum.'')] (lit ''description'') [] \<noteq> []"
    "dict_get [(lit ''description'', lit ''Compute the sum.'')] (lit ''title'') [] = []"
    by (simp_all add: str_defs)
  then show ?thesis
    using demo_read_sum sum_html_nonblank demo_sections_sum_earlier
    by (simp add: extract_problem_from_html_file_def extract_problem_from_html_file_body_def)
qed

subsection \<open>Confidence\<close>

text \<open>
  C4. The confidence of every record of the improved pipeline is the float nearest to
  0.5, plus 0.1 for a title, plus 0.2 for a description longer than 50 characters, plus 0.2
  for a sample case, plus 0.1 for a constraints text, capped at 1; it is the score that the
  source computes in floating point from these four tests. That score lies between 0 and 1
  and does not decrease when a test turns from false to true.
\<close>

theorem confidence_formula:
  "(extract_problem_improved E file_path = Inr (Some r, out) \<longrightarrow>
      confidence (metadata r) =
        fl (min 1 (5 / 10
             + (if title (basicInfo r) \<noteq> [] then 1 / 10 else 0)
             + (if length (description (basicInfo r)) > 50 then 2 / 10 else 0)
             + (if sampleCases (examples r) \<noteq> [] then 2 / 10 else 0)
             + (if ic_description (constraints r) \<noteq> [] then 1 / 10 else 0)))
      \<and> confidence (metadata r) =
          confidence_score (title (basicInfo r) \<noteq> []) (length (description (basicInfo r)) > 50)
            (sampleCases (examples r) \<noteq> []) (ic_description (constraints r) \<noteq> []))
   \<and> 0 \<le> confidence_score t d x c \<and> confidence_score t d x c \<le> 1
   \<and> ((t \<longrightarrow> t') \<and> (d \<longrightarrow> d') \<and> (x \<longrightarrow> x') \<and> (c \<longrightarrow> c')
        \<longrightarrow> confidence_score t d x c \<le> confidence_score t' d' x' c')"
proof -
  have rec_eq: "confidence (metadata r) =
        fl (min 1 (5 / 10
             + (if title (basicInfo r) \<noteq> [] then 1 / 10 else 0)
             + (if length (description (basicInfo r)) > 50 then 2 / 10 else 0)
             + (if sampleCases (examples r) \<noteq> [] then 2 / 10 else 0)
             + (if ic_description (constraints r) \<noteq> [] then 1 / 10 else 0)))
      \<and> confidence (metadata r) =
          confidence_score (title (basicInfo r) \<noteq> []) (length (description (basicInfo r)) > 50)
            (sampleCases (examples r) \<noteq> []) (ic_description (constraints r) \<noteq> [])"
    if h: "extract_problem_improved E file_path = Inr (Some r, out)"
  proof -
    have t: "(title (basicInfo r) \<noteq> []) = True"
      using improved_confidence(1) [OF h] by simp
    show ?thesis
      unfolding improved_confidence(2) [OF h] t if_True
      by (simp only: confidence_score_decimal)
  qed
  have mono_le: "confidence_score t d x c \<le> confidence_score t' d' x' c'"
    if "(t \<longrightarrow> t') \<and> (d \<longrightarrow> d') \<and> (x \<longrightarrow> x') \<and> (c \<longrightarrow> c')"
    using that by (intro confidence_score_mono) simp_all
  show ?thesis
  proof (intro conjI impI)
    assume h: "extract_problem_improved E file_path = Inr (Some r, out)"
    show "confidence (metadata r) =
        fl (min 1 (5 / 10
             + (if title (basicInfo r) \<noteq> [] then 1 / 10 else 0)
             + (if length (description (basicInfo r)) > 50 then 2 / 10 else 0)
             + (if sampleCases (examples r) \<noteq> [] then 2 / 10 else 0)
             + (if ic_description (constraints r) \<noteq> [] then 1 / 10 else 0)))"
      using rec_eq [OF h] by (rule conjunct1)
    show "confidence (metadata r) =
          confidence_score (title (basicInfo r) \<noteq> []) (length (description (basicInfo r)) > 50)
            (sampleCases (examples r) \<noteq> []) (ic_description (constraints r) \<noteq> [])"
      using rec_eq [OF h] by (rule conjunct2)
  next
    show "0 \<le> confidence_score t d x c"
      using confidence_score_range [of t d x c] by (rule conjunct1)
    show "confidence_score t d x c \<le> 1"
      using confidence_score_range [of t d x c] by (rule conjunct2)
  next
    assume "(t \<longrightarrow> t') \<and> (d \<longrightarrow> d') \<and> (x \<longrightarrow> x') \<and> (c \<longrightarrow> c')"
    then show "confidence_score t d x c \<le> confidence_score t' d' x' c'"
      by (rule mono_le)
  qed
qed

text \<open>
  The document \<open>Add Two Numbers\<close> has a title and a constraints text, a short
  description and no sample case: its confidence is 0.7.
\<close>

theorem confidence_formula_witness:
  "extract_problem_improved demo_env (lit ''p00001.html'')
     = Inr (Some (assemble_improved demo_env (lit ''p00001.html'') (lit ''p00001'') add_sections
                (lit ''Easy'')), [])
   \<and> confidence (metadata (assemble_improved demo_env (lit ''p00001.html'') (lit ''p00001'')
        add_sections (lit ''Easy''))) = fl (7 / 10)"
proof -
  have "lit ''Add Two Numbers'' \<noteq> []" "\<not> length range_text > 50" "range_text \<noteq> []"
    by (simp_all add: lit_def range_text_def)
  then show ?thesis
    using confidence_formula [of demo_env "lit ''p00001.html''"
        "assemble_improved demo_env (lit ''p00001.html'') (lit ''p00001'') add_sections
           (lit ''Easy'')" "[]" True False False True True False False True]
      demo_improved_add
    by (simp add: demo_improved_add_fields)
qed

text \<open>
  C10. Every record of the improved pipeline has a title, and its confidence is one of
  the floats 0.6, 0.7, 0.8, 0.9 and 1.0: it is at least 0.6, so the report counts it as
  \<open>high\<close> or \<open>medium\<close>, never as \<open>low\<close>.
\<close>

theorem confidence_at_least_six_tenths:
  "extract_problem_improved E file_path = Inr (Some r, out) \<longrightarrow>
     title (basicInfo r) \<noteq> []
     \<and> confidence (metadata r) \<in> {fl (6 / 10), fl (7 / 10), fl (8 / 10), fl (9 / 10), fl 1}
     \<and> fl (6 / 10) \<le> confidence (metadata r)
     \<and> confidence_level (confidence (metadata r)) \<noteq> lit ''low''"
proof
  assume h: "extract_problem_improved E file_path = Inr (Some r, out)"
  define d where "d = (length (description (basicInfo r)) > 50)"
  define x where "x = (sampleCases (examples r) \<noteq> [])"
  define c where "c = (ic_description (constraints r) \<noteq> [])"
  have conf: "confidence (metadata r) = confidence_score True d x c"
    unfolding d_def x_def c_def by (rule improved_confidence(2) [OF h])
  have mem: "confidence_score True d x c \<in> {fl (6 / 10), fl (7 / 10), fl (8 / 10), fl (9 / 10), fl 1}"
    by (cases d; cases x; cases c) (simp_all only: confidence_score_title insert_iff simp_thms)
  have ge: "fl (6 / 10) \<le> confidence_score True d x c"
    by (cases d; cases x; cases c) (simp_all add: confidence_table fl_values)
  have level: "confidence_level (confidence_score True d x c) \<noteq> lit ''low''"
    by (cases d; cases x; cases c)
       (simp_all add: confidence_table fl_values confidence_level_def lit_def)
  show "title (basicInfo r) \<noteq> []
     \<and> confidence (metadata r) \<in> {fl (6 / 10), fl (7 / 10), fl (8 / 10), fl (9 / 10), fl 1}
     \<and> fl (6 / 10) \<le> confidence (metadata r)
     \<and> confidence_level (confidence (metadata r)) \<noteq> lit ''low''"
    unfolding conf
    by (intro conjI improved_confidence(1) [OF h] mem ge level)
qed

text \<open>
  The same record is not in the \<open>low\<close> bucket.
\<close>

theorem confidence_at_least_six_tenths_witness:
  "title (basicInfo (assemble_improved demo_env (lit ''p00001.html'') (lit ''p00001'')
      add_sections (lit ''Easy''))) \<noteq> []
   \<and> confidence (metadata (assemble_improved demo_env (lit ''p00001.html'') (lit ''p00001'')
        add_sections (lit ''Easy'')))
       \<in> {fl (6 / 10), fl (7 / 10), fl (8 / 10), fl (9 / 10), fl 1}
   \<and> fl (6 / 10) \<le> confidence (metadata (assemble_improved demo_env (lit ''p00001.html'')
        (lit ''p00001'') add_sections (lit ''Easy'')))
   \<and> confidence_level (confidence (metadata (assemble_improved demo_env (lit ''p00001.html'')
        (lit ''p00001'') add_sections (lit ''Easy'')))) \<noteq> lit ''low''"
  by (rule confidence_at_least_six_tenths [of demo_env "lit ''p00001.html''" _ "[]",
        rule_format, OF demo_improved_add])

subsection \<open>Title and description\<close>

text \<open>
  C5 (as amended). In the improved pipeline, when the document has an \<open>h1\<close> whose text
  and whose normalized text are not empty, the title of the returned record is the
  normalized text of that heading. In the earlier pipeline, when the document has an
  \<open>h1\<close> and no \<open>h2\<close> section is named \<open>title\<close>, the title of the returned record is
  the normalized text of the heading with every \<open>Problem F: \<close> and then every
  \<open>Problem A: \<close> removed; it is the normalized text itself when neither occurs.
\<close>

theorem title_from_heading:
  "(read_file E file_path = Inr html_content \<and> BeautifulSoup E html_content = Inr soup
    \<and> find_h1 soup = Some h1 \<and> strip (tg_get_text h1) \<noteq> []
    \<and> clean_html_text E (tg_str h1) = Inr heading_text \<and> heading_text \<noteq> []
    \<and> extract_problem_improved E file_path = Inr (Some r, out)
    \<longrightarrow> title (basicInfo r) = heading_text)
   \<and> (read_file E file_path = Inr html_content \<and> BeautifulSoup E html_content = Inr soup
      \<and> find_h1 soup = Some h1
      \<and> clean_html_text E (tg_str h1) = Inr heading_text
      \<and> list_all (\<lambda>h2. case clean_html_text E (tg_str h2) of
                          Inl e \<Rightarrow> True
                        | Inr name \<Rightarrow> uc_lower (tables E) name \<noteq> lit ''title'')
            (find_all_h2 soup)
      \<and> extract_problem_from_html_file E file_path = Inr (Some r', out')
      \<longrightarrow> title (basicInfo r')
            = replace (replace heading_text (lit ''Problem F: '') []) (lit ''Problem A: '') []
          \<and> (\<not> str_in (lit ''Problem F: '') heading_text
              \<and> \<not> str_in (lit ''Problem A: '') heading_text
              \<longrightarrow> title (basicInfo r') = heading_text))"
proof (intro conjI impI)
  assume h: "read_file E file_path = Inr html_content \<and> BeautifulSoup E html_content = Inr soup
    \<and> find_h1 soup = Some h1 \<and> strip (tg_get_text h1) \<noteq> []
    \<and> clean_html_text E (tg_str h1) = Inr heading_text \<and> heading_text \<noteq> []
    \<and> extract_problem_improved E file_path = Inr (Some r, out)"
  then obtain sections difficulty_text where
    s: "extract_sections_from_html_improved E html_content = Inr sections"
    and r: "r = assemble_improved E file_path (path_stem E file_path)
                  (with_fallback_title sections (path_stem E file_path)) difficulty_text"
    unfolding improved_Some by auto
  from h have "extract_title_flexible E soup = Inr heading_text"
    by (simp add: extract_title_flexible_def)
  with improved_sections(1) [OF _ s] h
  have t: "dict_get sections (lit ''title'') [] = heading_text"
    by simp
  with h have "dict_get sections (lit ''title'') [] \<noteq> []"
    by simp
  then obtain v where v: "map_of sections (lit ''title'') = Some v"
    by (auto simp: dict_get_def split: option.splits)
  with t have "dict_get sections (lit ''title'') dflt = heading_text" for dflt
    by (simp add: dict_get_def)
  with h show "title (basicInfo r) = heading_text"
    by (simp add: r assemble_improved_def Let_def with_fallback_title_def)
next
  assume h: "read_file E file_path = Inr html_content \<and> BeautifulSoup E html_content = Inr soup
      \<and> find_h1 soup = Some h1
      \<and> clean_html_text E (tg_str h1) = Inr heading_text
      \<and> list_all (\<lambda>h2. case clean_html_text E (tg_str h2) of
                          Inl e \<Rightarrow> True
                        | Inr name \<Rightarrow> uc_lower (tables E) name \<noteq> lit ''title'')
            (find_all_h2 soup)
      \<and> extract_problem_from_html_file E file_path = Inr (Some r', out')"
  then obtain sections difficulty_text where
    s: "extract_sections_from_html E html_content = Inr sections"
    and r: "r' = assemble_earlier E file_path (path_stem E file_path) sections difficulty_text"
    unfolding earlier_Some by auto
  from h s have t: "dict_get sections (lit ''title'') dflt = heading_text" for dflt
    by (intro earlier_sections_title [of E html_content soup h1]) simp_all
  show a: "title (basicInfo r')
            = replace (replace heading_text (lit ''Problem F: '') []) (lit ''Problem A: '') []"
    by (simp add: r assemble_earlier_def Let_def t)
  assume "\<not> str_in (lit ''Problem F: '') heading_text
              \<and> \<not> str_in (lit ''Problem A: '') heading_text"
  then show "title (basicInfo r') = heading_text"
    unfolding a by (simp add: replace_absent)
qed

text \<open>
  The heading \<open>Add Two Numbers\<close> is the title in both pipelines.
\<close>

theorem title_from_heading_witness:
  "title (basicInfo (assemble_improved demo_env (lit ''p00001.html'') (lit ''p00001'')
      add_sections (lit ''Easy''))) = lit ''Add Two Numbers''
   \<and> title (basicInfo (assemble_earlier demo_env (lit ''p00001.html'') (lit ''p00001'')
      add_sections_earlier (lit ''Easy''))) = lit ''Add Two Numbers''"
proof -
  have a: "find_h1 add_soup = Some add_h1" "find_all_h2 add_soup = [add_h2]"
    by (simp_all add: add_soup_def)
  have b: "strip (tg_get_text add_h1) \<noteq> []" "lit ''Add Two Numbers'' \<noteq> []"
    "uc_lower latin1 (lit ''Constraints'') \<noteq> lit ''title''"
    "\<not> str_in (lit ''Problem F: '') (lit ''Add Two Numbers'')"
    "\<not> str_in (lit ''Problem A: '') (lit ''Add Two Numbers'')"
    by (simp_all add: add_h1_def str_defs)
  show ?thesis
    using title_from_heading [of demo_env "lit ''p00001.html''" add_html add_soup add_h1
        "lit ''Add Two Numbers''"
        "assemble_improved demo_env (lit ''p00001.html'') (lit ''p00001'') add_sections
           (lit ''Easy'')" "[]"
        "assemble_earlier demo_env (lit ''p00001.html'') (lit ''p00001'') add_sections_earlier
           (lit ''Easy'')" "[]"]
      a b demo_read_add demo_parse_add demo_clean_add_h1 demo_clean_add_h2 demo_improved_add
      demo_earlier_add demo_tables
    by (simp add: replace_absent)
qed

text \<open>
  The heading \<open>Problem A: Sum\<close>: the earlier pipeline returns a record whose title is
  \<open>Sum\<close>.
\<close>

theorem title_earlier_counterexample:
  "find_h1 prefix_soup = Some prefix_h1
   \<and> strip (tg_get_text prefix_h1) \<noteq> []
   \<and> clean_html_text demo_env (tg_str prefix_h1) = Inr (lit ''Problem A: Sum'')
   \<and> extract_problem_from_html_file demo_env (lit ''p00003.html'')
       = Inr (Some (assemble_earlier demo_env (lit ''p00003.html'') (lit ''p00003'')
                  prefix_sections_earlier (lit ''Easy'')), [])
   \<and> title (basicInfo (assemble_earlier demo_env (lit ''p00003.html'') (lit ''p00003'')
        prefix_sections_earlier (lit ''Easy''))) = lit ''Sum''
   \<and> lit ''Sum'' \<noteq> lit ''Problem A: Sum''"
proof -
  have t: "dict_get prefix_sections_earlier (lit ''title'') dflt = lit ''Problem A: Sum''" for dflt
    by (simp add: prefix_sections_earlier_def str_defs)
  have n: "lit ''Problem A: Sum'' \<noteq> []" "lit ''Sum'' \<noteq> lit ''Problem A: Sum''"
    by (simp_all add: lit_def)
  have e: "extract_problem_from_html_file demo_env (lit ''p00003.html'')
       = Inr (Some (assemble_earlier demo_env (lit ''p00003.html'') (lit ''p00003'')
                  prefix_sections_earlier (lit ''Easy'')), [])"
    using n
    by (simp add: extract_problem_from_html_file_def extract_problem_from_html_file_body_def
        demo_read_prefix prefix_html_nonblank demo_stem_prefix demo_sections_prefix_earlier
        demo_tables demo_difficulty_prefix_earlier t Let_def)
  have r: "replace (replace (lit ''Problem A: Sum'') (lit ''Problem F: '') []) (lit ''Problem A: '') []
             = lit ''Sum''"
    by (simp add: lit_def)
  have "title (basicInfo (assemble_earlier demo_env (lit ''p00003.html'') (lit ''p00003'')
        prefix_sections_earlier (lit ''Easy''))) = lit ''Sum''"
    by (simp add: assemble_earlier_def Let_def t r)
  moreover have "find_h1 prefix_soup = Some prefix_h1" "strip (tg_get_text prefix_h1) \<noteq> []"
    by (simp_all add: prefix_soup_def prefix_h1_def str_defs)
  ultimately show ?thesis
    using e n demo_clean_prefix_h1 by simp
qed

text \<open>
  C9 (as amended). In the improved pipeline the description is the directly collected
  parts, then the text harvested from the comments when the directly collected text is
  shorter than 50 characters and the harvest is not empty, then the texts after a Problem
  Statement heading, all joined by single spaces: the harvest is appended, and the directly
  collected text stays.
\<close>

theorem description_appends_comments:
  "(BeautifulSoup E html_content = Inr soup
    \<and> extract_sections_from_html_improved E html_content = Inr sections
    \<longrightarrow> dict_get sections (lit ''description'') [] =
          join (lit '' '')
            (direct_description_parts soup
             @ (if length (join (lit '' '') (direct_description_parts soup)) < 50
                   \<and> extract_from_comments E soup \<noteq> []
                then [extract_from_comments E soup] else [])
             @ statement_description_parts soup))
   \<and> (read_file E file_path = Inr html_content \<and> BeautifulSoup E html_content = Inr soup
      \<and> extract_problem_improved E file_path = Inr (Some r, out)
      \<longrightarrow> description (basicInfo r) =
            join (lit '' '')
              (direct_description_parts soup
               @ (if length (join (lit '' '') (direct_description_parts soup)) < 50
                     \<and> extract_from_comments E soup \<noteq> []
                  then [extract_from_comments E soup] else [])
               @ statement_description_parts soup))"
proof -
  have parts: "description_parts_improved E soup =
      direct_description_parts soup
        @ (if length (join (lit '' '') (direct_description_parts soup)) < 50
              \<and> extract_from_comments E soup \<noteq> []
           then [extract_from_comments E soup] else [])
        @ statement_description_parts soup"
    by (simp add: description_parts_improved_def comment_description_parts_def Let_def)
  have sections_level: "dict_get S (lit ''description'') [] =
          join (lit '' '')
            (direct_description_parts soup
             @ (if length (join (lit '' '') (direct_description_parts soup)) < 50
                   \<and> extract_from_comments E soup \<noteq> []
                then [extract_from_comments E soup] else [])
             @ statement_description_parts soup)"
    if "BeautifulSoup E html_content = Inr soup"
      and "extract_sections_from_html_improved E html_content = Inr S" for S
    using improved_sections(2) [OF that] by (simp only: parts)
  show ?thesis
  proof (intro conjI impI)
    assume "BeautifulSoup E html_content = Inr soup
      \<and> extract_sections_from_html_improved E html_content = Inr sections"
    then show "dict_get sections (lit ''description'') [] =
          join (lit '' '')
            (direct_description_parts soup
             @ (if length (join (lit '' '') (direct_description_parts soup)) < 50
                   \<and> extract_from_comments E soup \<noteq> []
                then [extract_from_comments E soup] else [])
             @ statement_description_parts soup)"
      using sections_level by blast
  next
    assume h: "read_file E file_path = Inr html_content \<and> BeautifulSoup E html_content = Inr soup
      \<and> extract_problem_improved E file_path = Inr (Some r, out)"
    then obtain S difficulty_text where
      s: "extract_sections_from_html_improved E html_content = Inr S"
      and r: "r = assemble_improved E file_path (path_stem E file_path)
                    (with_fallback_title S (path_stem E file_path)) difficulty_text"
      unfolding improved_Some by auto
    have ne: "lit ''description'' \<noteq> lit ''title''"
      by (simp add: lit_def)
    have "description (basicInfo r) = dict_get S (lit ''description'') []"
      by (simp add: r assemble_improved_def Let_def fallback_title_other [OF ne])
    also have "\<dots> = join (lit '' '')
              (direct_description_parts soup
               @ (if length (join (lit '' '') (direct_description_parts soup)) < 50
                     \<and> extract_from_comments E soup \<noteq> []
                  then [extract_from_comments E soup] else [])
               @ statement_description_parts soup)"
      using h s by (intro sections_level) simp_all
    finally show "description (basicInfo r) =
            join (lit '' '')
              (direct_description_parts soup
               @ (if length (join (lit '' '') (direct_description_parts soup)) < 50
                     \<and> extract_from_comments E soup \<noteq> []
                  then [extract_from_comments E soup] else [])
               @ statement_description_parts soup)" .
  qed
qed

text \<open>
  The document with the short text and the comment: the description is the short text
  followed by the text of the comment.
\<close>

theorem description_appends_comments_witness:
  "dict_get comment_sections (lit ''description'') []
     = lit ''Short text. This comment holds the real statement.''"
proof -
  have "length (join (lit '' '') [lit ''Short text.'']) < 50" "comment_statement \<noteq> []"
    "join (lit '' '') [lit ''Short text.'', comment_statement]
       = lit ''Short text. This comment holds the real statement.''"
    by (simp_all add: comment_statement_def lit_def)
  then show ?thesis
    using description_appends_comments [of demo_env comment_html comment_soup comment_sections
        "lit ''p00004.html''"] demo_parse_comment demo_sections_comment
    by (simp add: demo_direct_comment demo_comments_comment demo_statement_comment)
qed

text \<open>
  In that document the directly collected text has 11 characters, and the description
  differs from the text harvested from the comment.
\<close>

theorem description_replaced_counterexample:
  "length (join (lit '' '') (direct_description_parts comment_soup)) < 50
   \<and> BeautifulSoup demo_env comment_html = Inr comment_soup
   \<and> extract_sections_from_html_improved demo_env comment_html = Inr comment_sections
   \<and> extract_from_comments demo_env comment_soup
       = lit ''This comment holds the real statement.''
   \<and> dict_get comment_sections (lit ''description'') []
       = lit ''Short text. This comment holds the real statement.''
   \<and> lit ''Short text. This comment holds the real statement.''
       \<noteq> lit ''This comment holds the real statement.''"
proof -
  have "length (join (lit '' '') (direct_description_parts comment_soup)) < 50"
    by (simp add: demo_direct_comment lit_def)
  moreover have "dict_get comment_sections (lit ''description'') []
       = lit ''Short text. This comment holds the real statement.''"
    by (simp add: comment_sections_def comment_statement_def str_defs)
  moreover have "lit ''Short text. This comment holds the real statement.''
       \<noteq> lit ''This comment holds the real statement.''"
    by (simp add: lit_def)
  moreover have "extract_from_comments demo_env comment_soup
       = lit ''This comment holds the real statement.''"
    by (simp add: demo_comments_comment comment_statement_def)
  ultimately show ?thesis
    using demo_parse_comment demo_sections_comment by simp
qed

end
